theory Spec2Isabelle
  imports Complex_Main "HOL-Library.Sublist" "HOL-Library.Word"
begin

section \<open>JavaScript values used by the services\<close>

text \<open>
  Strings handed to the services are ASCII character lists; a string that \<open>JSON.parse\<close>
  builds is a list of UTF-16 code units, since a \<open>\u\<close> escape can name any of them.
  Numbers that are identifiers, counts or basis points are integers. TVL, liquidity
  thresholds and APY bounds of a query are finite JavaScript numbers, each modelled by the
  real number it denotes. The APY of an opportunity is a JavaScript number that may be
  \<open>NaN\<close>: the DefiLlama adapter divides whatever the pool carries. Arithmetic on finite
  numbers is exact here, where JavaScript rounds every result to a double (a monotone
  step that keeps the sign of a difference); infinite values are left out. A value thrown
  by the platform or by a \<open>throw\<close> statement is either an \<open>Error\<close> object with its
  message or some other value.
\<close>

datatype thrown = JsError string | NonError

subsection \<open>Numbers that may be NaN\<close>

datatype number = NaN | Num real

text \<open>\<open>a >= b\<close> and \<open>a <= b\<close>: false as soon as one operand is \<open>NaN\<close>.\<close>

fun num_ge :: "number \<Rightarrow> number \<Rightarrow> bool" where
  "num_ge (Num a) (Num b) = (a \<ge> b)"
| "num_ge NaN b = False"
| "num_ge (Num a) NaN = False"

fun num_le :: "number \<Rightarrow> number \<Rightarrow> bool" where
  "num_le (Num a) (Num b) = (a \<le> b)"
| "num_le NaN b = False"
| "num_le (Num a) NaN = False"

text \<open>\<open>a - b\<close>, and \<open>a / d\<close> for a divisor that is a non-zero constant.\<close>

fun num_sub :: "number \<Rightarrow> number \<Rightarrow> number" where
  "num_sub (Num a) (Num b) = Num (a - b)"
| "num_sub NaN b = NaN"
| "num_sub (Num a) NaN = NaN"

fun num_div :: "number \<Rightarrow> real \<Rightarrow> number" where
  "num_div (Num a) d = Num (a / d)"
| "num_div NaN d = NaN"

text \<open>
  A numeric field of a parsed JSON payload: the key is missing (\<open>undefined\<close>), holds
  \<open>null\<close>, or holds a number. \<open>ToNumber\<close> is the conversion that an arithmetic
  operator applies to its operand.
\<close>

datatype numeric_field = FieldUndefined | FieldNull | FieldNumber real

fun ToNumber :: "numeric_field \<Rightarrow> number" where
  "ToNumber FieldUndefined = NaN"
| "ToNumber FieldNull = Num 0"
| "ToNumber (FieldNumber v) = Num v"

text \<open>\<open>error instanceof Error ? error.message : fallback\<close>\<close>

fun error_message :: "thrown \<Rightarrow> string \<Rightarrow> string" where
  "error_message (JsError m) fallback = m"
| "error_message NonError fallback = fallback"

subsection \<open>String.prototype.toLowerCase, toUpperCase, trim\<close>

definition toLowerCase_char :: "char \<Rightarrow> char" where
  "toLowerCase_char c =
     (let n = (of_char c :: nat) in if 65 \<le> n \<and> n \<le> 90 then char_of (n + 32) else c)"

definition toUpperCase_char :: "char \<Rightarrow> char" where
  "toUpperCase_char c =
     (let n = (of_char c :: nat) in if 97 \<le> n \<and> n \<le> 122 then char_of (n - 32) else c)"

definition toLowerCase :: "string \<Rightarrow> string" where
  "toLowerCase s = map toLowerCase_char s"

definition toUpperCase :: "string \<Rightarrow> string" where
  "toUpperCase s = map toUpperCase_char s"

text \<open>White space of \<open>trim\<close> and \<open>parseInt\<close>: TAB, LF, VT, FF, CR and space.\<close>

definition is_space :: "char \<Rightarrow> bool" where
  "is_space c = (let n = (of_char c :: nat) in (9 \<le> n \<and> n \<le> 13) \<or> n = 32)"

definition trim :: "string \<Rightarrow> string" where
  "trim s = rev (dropWhile is_space (rev (dropWhile is_space s)))"

text \<open>
  A UTF-16 code unit, the code units of an ASCII string, and \<open>toLowerCase\<close> on code
  units: the letters A to Z are mapped, the case mapping of the code units beyond ASCII is
  left out.
\<close>

type_synonym code_unit = "16 word"

definition utf16 :: "string \<Rightarrow> code_unit list" where
  "utf16 s = map of_char s"

definition toLowerCase_unit :: "code_unit \<Rightarrow> code_unit" where
  "toLowerCase_unit u = (if 65 \<le> u \<and> u \<le> 90 then u + 32 else u)"

subsection \<open>parseInt(s, 10)\<close>

text \<open>
  \<open>parseInt\<close> skips leading white space, reads an optional sign and the longest
  prefix of decimal digits, and ignores what follows; with no digit the result is NaN,
  here \<open>None\<close>. The result is the Number value of the integer that the digits denote:
  an integer of more than 53 significant bits is rounded to the nearest one that has 53,
  a tie to the even one (\<open>to_double\<close>). An integer of 2 to the power of 1024 or more
  would be \<open>Infinity\<close> and is left out, as infinite values are throughout.
\<close>

function bit_length :: "int \<Rightarrow> nat" where
  "bit_length n = (if n \<le> 0 then 0 else Suc (bit_length (n div 2)))"
  by pat_completeness auto
termination
  by (relation "measure nat") auto

declare bit_length.simps [simp del]

definition to_double :: "int \<Rightarrow> int" where
  "to_double n =
     (let a = \<bar>n\<bar> in
      if a < 2 ^ 53 then n
      else
        (let q = 2 ^ (bit_length a - 53);
             m = a div q;
             r = a mod q;
             up = (q < 2 * r \<or> (2 * r = q \<and> odd m))
         in sgn n * ((if up then m + 1 else m) * q)))"

definition is_digit :: "char \<Rightarrow> bool" where
  "is_digit c = (let n = (of_char c :: nat) in 48 \<le> n \<and> n \<le> 57)"

definition digit_val :: "char \<Rightarrow> int" where
  "digit_val c = int (of_char c) - 48"

definition digits_val :: "string \<Rightarrow> int" where
  "digits_val ds = foldl (\<lambda>acc d. 10 * acc + digit_val d) 0 ds"

definition parseInt :: "string \<Rightarrow> int option" where
  "parseInt s =
     (let t = dropWhile is_space s;
          neg = (case t of [] \<Rightarrow> False | c # _ \<Rightarrow> c = CHR ''-'');
          u = (case t of [] \<Rightarrow> []
               | c # cs \<Rightarrow> if c = CHR ''-'' \<or> c = CHR ''+'' then cs else t);
          ds = takeWhile is_digit u
      in if ds = [] then None
         else Some (to_double (if neg then - digits_val ds else digits_val ds)))"

subsection \<open>JSON.parse\<close>

text \<open>
  JSON values; a number keeps its lexeme, a string and a member name are lists of code
  units, an object keeps its members as they are written. \<open>JSON_parse\<close> follows the
  JSON grammar (ECMA-404) and returns \<open>None\<close> where \<open>JSON.parse\<close> throws a
  SyntaxError. \<open>JString\<close> is the JSON string with the characters of an ASCII string.
\<close>

datatype json =
    JNull
  | JBool bool
  | JNumber string
  | JText "code_unit list"
  | JArray "json list"
  | JObject "(code_unit list \<times> json) list"

definition JString :: "string \<Rightarrow> json" where
  "JString s = JText (utf16 s)"

definition is_ws :: "char \<Rightarrow> bool" where
  "is_ws c = (let n = (of_char c :: nat) in n = 32 \<or> n = 9 \<or> n = 10 \<or> n = 13)"

definition skip_ws :: "string \<Rightarrow> string" where
  "skip_ws s = dropWhile is_ws s"

definition hex_val :: "char \<Rightarrow> nat option" where
  "hex_val c =
     (let n = (of_char c :: nat) in
      if 48 \<le> n \<and> n \<le> 57 then Some (n - 48)
      else if 65 \<le> n \<and> n \<le> 70 then Some (n - 55)
      else if 97 \<le> n \<and> n \<le> 102 then Some (n - 87)
      else None)"

text \<open>The code unit of a single-character escape.\<close>

definition unescape :: "char \<Rightarrow> code_unit option" where
  "unescape e =
     (if e = CHR 0x22 then Some 0x22
      else if e = CHR 0x5C then Some 0x5C
      else if e = CHR ''/'' then Some 0x2F
      else if e = CHR ''b'' then Some 0x08
      else if e = CHR ''f'' then Some 0x0C
      else if e = CHR ''n'' then Some 0x0A
      else if e = CHR ''r'' then Some 0x0D
      else if e = CHR ''t'' then Some 0x09
      else None)"

text \<open>The four hexadecimal digits after \<open>\u\<close> give one code unit, whatever its value.\<close>

definition unicode_escape :: "string \<Rightarrow> (code_unit \<times> string) option" where
  "unicode_escape s =
     (case s of
        a # b # c # d # rest \<Rightarrow>
          (case (hex_val a, hex_val b, hex_val c, hex_val d) of
             (Some h3, Some h2, Some h1, Some h0) \<Rightarrow>
               Some (of_nat (((h3 * 16 + h2) * 16 + h1) * 16 + h0), rest)
           | _ \<Rightarrow> None)
      | _ \<Rightarrow> None)"

text \<open>The characters after an opening quote, up to and including the closing quote.\<close>

fun parse_string_body :: "code_unit list \<Rightarrow> string \<Rightarrow> (code_unit list \<times> string) option" where
  "parse_string_body acc [] = None"
| "parse_string_body acc [c] = (if c = CHR 0x22 then Some (rev acc, []) else None)"
| "parse_string_body acc (c # e # es) =
     (if c = CHR 0x22 then Some (rev acc, e # es)
      else if c = CHR 0x5C then
        (if e = CHR ''u'' then
           (case unicode_escape es of
              None \<Rightarrow> None
            | Some (d, _) \<Rightarrow> parse_string_body (d # acc) (drop 4 es))
         else
           (case unescape e of
              None \<Rightarrow> None
            | Some d \<Rightarrow> parse_string_body (d # acc) es))
      else if (of_char c :: nat) < 32 then None
      else parse_string_body (of_char c # acc) (e # es))"

text \<open>\<open>-? (0 | [1-9][0-9]*) (. [0-9]+)? ([eE] [+-]? [0-9]+)?\<close>\<close>

definition parse_number :: "string \<Rightarrow> (string \<times> string) option" where
  "parse_number s =
     (let (sign, s1) = (case s of [] \<Rightarrow> ([], [])
                        | c # cs \<Rightarrow> if c = CHR ''-'' then ([c], cs) else ([], s));
          ip = (case s1 of [] \<Rightarrow> []
                | c # cs \<Rightarrow> if c = CHR ''0'' then [c] else takeWhile is_digit s1);
          s2 = drop (length ip) s1;
          (frac, s3) =
            (case s2 of
               c # cs \<Rightarrow>
                 if c = CHR ''.'' \<and> takeWhile is_digit cs \<noteq> []
                 then (c # takeWhile is_digit cs, dropWhile is_digit cs)
                 else ([], s2)
             | [] \<Rightarrow> ([], s2));
          (ex, s4) =
            (case s3 of
               c # cs \<Rightarrow>
                 if c = CHR ''e'' \<or> c = CHR ''E'' then
                   (let (sg, t) = (case cs of [] \<Rightarrow> ([], [])
                                   | d # ds \<Rightarrow> if d = CHR ''+'' \<or> d = CHR ''-''
                                               then ([d], ds) else ([], cs))
                    in if takeWhile is_digit t \<noteq> []
                       then (c # sg @ takeWhile is_digit t, dropWhile is_digit t)
                       else ([], s3))
                 else ([], s3)
             | [] \<Rightarrow> ([], s3))
      in if ip = [] then None else Some (sign @ ip @ frac @ ex, s4))"

definition strip_prefix :: "string \<Rightarrow> string \<Rightarrow> string option" where
  "strip_prefix p s = (if take (length p) s = p then Some (drop (length p) s) else None)"

fun parse_value :: "nat \<Rightarrow> string \<Rightarrow> (json \<times> string) option"
  and parse_elements :: "nat \<Rightarrow> json list \<Rightarrow> string \<Rightarrow> (json list \<times> string) option"
  and parse_members ::
    "nat \<Rightarrow> (code_unit list \<times> json) list \<Rightarrow> string
       \<Rightarrow> ((code_unit list \<times> json) list \<times> string) option"
where
  "parse_value 0 s = None"
| "parse_value (Suc n) s =
     (case skip_ws s of
        [] \<Rightarrow> None
      | c # cs \<Rightarrow>
          if c = CHR ''['' then
            (case skip_ws cs of
               [] \<Rightarrow> None
             | d # ds \<Rightarrow>
                 if d = CHR '']'' then Some (JArray [], ds)
                 else (case parse_elements n [] cs of
                         None \<Rightarrow> None
                       | Some (vs, r) \<Rightarrow> Some (JArray vs, r)))
          else if c = CHR ''{'' then
            (case skip_ws cs of
               [] \<Rightarrow> None
             | d # ds \<Rightarrow>
                 if d = CHR ''}'' then Some (JObject [], ds)
                 else (case parse_members n [] cs of
                         None \<Rightarrow> None
                       | Some (ms, r) \<Rightarrow> Some (JObject ms, r)))
          else if c = CHR 0x22 then
            (case parse_string_body [] cs of
               None \<Rightarrow> None
             | Some (str, r) \<Rightarrow> Some (JText str, r))
          else
            (case strip_prefix ''null'' (c # cs) of
               Some r \<Rightarrow> Some (JNull, r)
             | None \<Rightarrow>
            (case strip_prefix ''true'' (c # cs) of
               Some r \<Rightarrow> Some (JBool True, r)
             | None \<Rightarrow>
            (case strip_prefix ''false'' (c # cs) of
               Some r \<Rightarrow> Some (JBool False, r)
             | None \<Rightarrow>
            (case parse_number (c # cs) of
               Some (lx, r) \<Rightarrow> Some (JNumber lx, r)
             | None \<Rightarrow> None)))))"
| "parse_elements 0 acc s = None"
| "parse_elements (Suc n) acc s =
     (case parse_value n s of
        None \<Rightarrow> None
      | Some (v, r) \<Rightarrow>
          (case skip_ws r of
             [] \<Rightarrow> None
           | d # ds \<Rightarrow>
               if d = CHR '','' then parse_elements n (v # acc) ds
               else if d = CHR '']'' then Some (rev (v # acc), ds)
               else None))"
| "parse_members 0 acc s = None"
| "parse_members (Suc n) acc s =
     (case skip_ws s of
        [] \<Rightarrow> None
      | q # cs \<Rightarrow>
          if q \<noteq> CHR 0x22 then None
          else
            (case parse_string_body [] cs of
               None \<Rightarrow> None
             | Some (k, r) \<Rightarrow>
                 (case skip_ws r of
                    [] \<Rightarrow> None
                  | col # r1 \<Rightarrow>
                      if col \<noteq> CHR '':'' then None
                      else
                        (case parse_value n r1 of
                           None \<Rightarrow> None
                         | Some (v, r2) \<Rightarrow>
                             (case skip_ws r2 of
                                [] \<Rightarrow> None
                              | d # ds \<Rightarrow>
                                  if d = CHR '','' then parse_members n ((k, v) # acc) ds
                                  else if d = CHR ''}'' then Some (rev ((k, v) # acc), ds)
                                  else None)))))"

text \<open>
  Each recursive call is made after at least one character was consumed or hands the
  same text to \<open>parse_value\<close> once, so twice the length of the text bounds the depth.
\<close>

definition JSON_parse :: "string \<Rightarrow> json option" where
  "JSON_parse s =
     (case parse_value (2 * length s + 2) s of
        None \<Rightarrow> None
      | Some (v, r) \<Rightarrow> if skip_ws r = [] then Some v else None)"

section \<open>Types (types/index.ts)\<close>

datatype RiskTolerance = Conservative | Moderate | Aggressive

datatype Action = Deposit | Bridge | Swap

datatype RiskLevel = Low | Medium | High

text \<open>
  At run time \<open>whitelistedProtocols\<close> and \<open>blacklistedProtocols\<close> hold whatever array
  \<open>JSON.parse\<close> returned, and \<open>notificationPrefs\<close> whatever value of type \<open>object\<close>,
  so these fields carry JSON values; \<open>preferredChains\<close> holds the lower-cased strings
  of a parsed array, as code units.
\<close>

record UserPreferences =
  preferredChains :: "code_unit list list"
  riskTolerance :: RiskTolerance
  maxSlippageBps :: int
  defaultAction :: Action
  whitelistedProtocols :: "json list"
  blacklistedProtocols :: "json list"
  minLiquidityUsd :: real
  strategyFollow :: "string option"
  autoRebalance :: bool
  notificationPrefs :: json

text \<open>The ten keys of \<open>ENSTextRecords\<close>; a partial record set maps a key to its text.\<close>

datatype record_key =
    K_preferredChains
  | K_riskTolerance
  | K_maxSlippageBps
  | K_defaultAction
  | K_whitelistedProtocols
  | K_blacklistedProtocols
  | K_minLiquidityUsd
  | K_strategyFollow
  | K_autoRebalance
  | K_notificationPrefs

type_synonym ENSTextRecords = "record_key \<rightharpoonup> string"

fun ENS_RECORD_KEYS :: "record_key \<Rightarrow> string" where
  "ENS_RECORD_KEYS K_preferredChains = ''com.yieldintent.preferredChains''"
| "ENS_RECORD_KEYS K_riskTolerance = ''com.yieldintent.riskTolerance''"
| "ENS_RECORD_KEYS K_maxSlippageBps = ''com.yieldintent.maxSlippageBps''"
| "ENS_RECORD_KEYS K_defaultAction = ''com.yieldintent.defaultAction''"
| "ENS_RECORD_KEYS K_whitelistedProtocols = ''com.yieldintent.whitelistedProtocols''"
| "ENS_RECORD_KEYS K_blacklistedProtocols = ''com.yieldintent.blacklistedProtocols''"
| "ENS_RECORD_KEYS K_minLiquidityUsd = ''com.yieldintent.minLiquidityUsd''"
| "ENS_RECORD_KEYS K_strategyFollow = ''com.yieldintent.strategyFollow''"
| "ENS_RECORD_KEYS K_autoRebalance = ''com.yieldintent.autoRebalance''"
| "ENS_RECORD_KEYS K_notificationPrefs = ''com.yieldintent.notificationPrefs''"

record ENSProfile =
  name :: string
  address :: string
  avatar :: "string option"
  preferences :: UserPreferences
  isFollowingStrategy :: bool
  followedStrategyOwner :: "string option"

fun RISK_TOLERANCE_MAP :: "RiskTolerance \<Rightarrow> string list" where
  "RISK_TOLERANCE_MAP Conservative = [''aave-v3'', ''compound-v3'', ''morpho'', ''spark'']"
| "RISK_TOLERANCE_MAP Moderate =
     [''aave-v3'', ''compound-v3'', ''morpho'', ''spark'', ''yearn-v3'']"
| "RISK_TOLERANCE_MAP Aggressive =
     [''aave-v3'', ''compound-v3'', ''morpho'', ''spark'', ''yearn-v3'', ''pendle'', ''silo'']"

definition DEFAULT_PREFERENCES :: UserPreferences where
  "DEFAULT_PREFERENCES =
     \<lparr> preferredChains = map utf16 [''base'', ''arbitrum'', ''optimism''],
       riskTolerance = Moderate,
       maxSlippageBps = 100,
       defaultAction = Deposit,
       whitelistedProtocols = [],
       blacklistedProtocols = [],
       minLiquidityUsd = 100000,
       strategyFollow = None,
       autoRebalance = False,
       notificationPrefs = JObject [] \<rparr>"

section \<open>Preference resolver (services/ensService.ts)\<close>

text \<open>
  The naming client: each call either throws or returns a value or \<open>null\<close>.
\<close>

record EnsClient =
  getEnsAddress :: "string \<Rightarrow> thrown + string option"
  getEnsText :: "string \<Rightarrow> string \<Rightarrow> thrown + string option"
  getEnsAvatar :: "string \<Rightarrow> thrown + string option"

definition resolveName :: "EnsClient \<Rightarrow> string \<Rightarrow> string option" where
  "resolveName client nm =
     (case getEnsAddress client (trim (toLowerCase nm)) of
        Inl e \<Rightarrow> None
      | Inr a \<Rightarrow> a)"

definition getTextRecord :: "EnsClient \<Rightarrow> string \<Rightarrow> string \<Rightarrow> string option" where
  "getTextRecord client nm key =
     (case getEnsText client (trim (toLowerCase nm)) key of
        Inl e \<Rightarrow> None
      | Inr r \<Rightarrow> r)"

text \<open>Only truthy (non-empty) values are stored.\<close>

definition getAllTextRecords :: "EnsClient \<Rightarrow> string \<Rightarrow> ENSTextRecords" where
  "getAllTextRecords client nm =
     (\<lambda>k. case getTextRecord client nm (ENS_RECORD_KEYS k) of
             None \<Rightarrow> None
           | Some v \<Rightarrow> if v = [] then None else Some v)"

text \<open>\<open>if (records[key])\<close>: the record is present and not the empty string.\<close>

definition truthy :: "ENSTextRecords \<Rightarrow> record_key \<Rightarrow> string option" where
  "truthy records k =
     (case records k of
        None \<Rightarrow> None
      | Some v \<Rightarrow> if v = [] then None else Some v)"

text \<open>
  \<open>chains.map((c) => c.toLowerCase())\<close>: an element that is not a string has no
  \<open>toLowerCase\<close>, the call throws a TypeError (\<open>None\<close>) and the surrounding
  \<open>try\<close> keeps the default.
\<close>

fun lower_all :: "json list \<Rightarrow> code_unit list list option" where
  "lower_all [] = Some []"
| "lower_all (JText c # cs) =
     (case lower_all cs of None \<Rightarrow> None | Some r \<Rightarrow> Some (map toLowerCase_unit c # r))"
| "lower_all (_ # cs) = None"

fun parse_riskTolerance :: "string \<Rightarrow> RiskTolerance option" where
  "parse_riskTolerance s =
     (if s = ''conservative'' then Some Conservative
      else if s = ''moderate'' then Some Moderate
      else if s = ''aggressive'' then Some Aggressive
      else None)"

fun parse_defaultAction :: "string \<Rightarrow> Action option" where
  "parse_defaultAction s =
     (if s = ''deposit'' then Some Deposit
      else if s = ''bridge'' then Some Bridge
      else if s = ''swap'' then Some Swap
      else None)"

text \<open>\<open>typeof notifs === 'object'\<close> holds of objects, arrays and \<open>null\<close>.\<close>

fun typeof_object :: "json \<Rightarrow> bool" where
  "typeof_object (JObject _) = True"
| "typeof_object (JArray _) = True"
| "typeof_object JNull = True"
| "typeof_object _ = False"

definition parse_preferredChains :: "ENSTextRecords \<Rightarrow> UserPreferences \<Rightarrow> UserPreferences" where
  "parse_preferredChains records prefs =
     (case truthy records K_preferredChains of
        None \<Rightarrow> prefs
      | Some v \<Rightarrow>
          (case JSON_parse v of
             Some (JArray chs) \<Rightarrow>
               (case lower_all chs of
                  None \<Rightarrow> prefs
                | Some cs \<Rightarrow> prefs\<lparr>preferredChains := cs\<rparr>)
           | _ \<Rightarrow> prefs))"

definition parse_risk :: "ENSTextRecords \<Rightarrow> UserPreferences \<Rightarrow> UserPreferences" where
  "parse_risk records prefs =
     (case truthy records K_riskTolerance of
        None \<Rightarrow> prefs
      | Some v \<Rightarrow>
          (case parse_riskTolerance v of
             None \<Rightarrow> prefs
           | Some risk \<Rightarrow>
               prefs\<lparr>riskTolerance := risk,
                     whitelistedProtocols := map JString (RISK_TOLERANCE_MAP risk)\<rparr>))"

definition parse_maxSlippage :: "ENSTextRecords \<Rightarrow> UserPreferences \<Rightarrow> UserPreferences" where
  "parse_maxSlippage records prefs =
     (case truthy records K_maxSlippageBps of
        None \<Rightarrow> prefs
      | Some v \<Rightarrow>
          (case parseInt v of
             None \<Rightarrow> prefs
           | Some slippage \<Rightarrow>
               if slippage > 0 \<and> slippage \<le> 1000
               then prefs\<lparr>maxSlippageBps := slippage\<rparr> else prefs))"

definition parse_action :: "ENSTextRecords \<Rightarrow> UserPreferences \<Rightarrow> UserPreferences" where
  "parse_action records prefs =
     (case truthy records K_defaultAction of
        None \<Rightarrow> prefs
      | Some v \<Rightarrow>
          (case parse_defaultAction v of
             None \<Rightarrow> prefs
           | Some action \<Rightarrow> prefs\<lparr>defaultAction := action\<rparr>))"

definition parse_whitelist :: "ENSTextRecords \<Rightarrow> UserPreferences \<Rightarrow> UserPreferences" where
  "parse_whitelist records prefs =
     (case truthy records K_whitelistedProtocols of
        None \<Rightarrow> prefs
      | Some v \<Rightarrow>
          (case JSON_parse v of
             Some (JArray protocols) \<Rightarrow> prefs\<lparr>whitelistedProtocols := protocols\<rparr>
           | _ \<Rightarrow> prefs))"

definition parse_blacklist :: "ENSTextRecords \<Rightarrow> UserPreferences \<Rightarrow> UserPreferences" where
  "parse_blacklist records prefs =
     (case truthy records K_blacklistedProtocols of
        None \<Rightarrow> prefs
      | Some v \<Rightarrow>
          (case JSON_parse v of
             Some (JArray protocols) \<Rightarrow> prefs\<lparr>blacklistedProtocols := protocols\<rparr>
           | _ \<Rightarrow> prefs))"

definition parse_minLiquidity :: "ENSTextRecords \<Rightarrow> UserPreferences \<Rightarrow> UserPreferences" where
  "parse_minLiquidity records prefs =
     (case truthy records K_minLiquidityUsd of
        None \<Rightarrow> prefs
      | Some v \<Rightarrow>
          (case parseInt v of
             None \<Rightarrow> prefs
           | Some liquidity \<Rightarrow>
               if liquidity \<ge> 0
               then prefs\<lparr>minLiquidityUsd := of_int liquidity\<rparr> else prefs))"

definition parse_strategyFollow :: "ENSTextRecords \<Rightarrow> UserPreferences \<Rightarrow> UserPreferences" where
  "parse_strategyFollow records prefs =
     (case truthy records K_strategyFollow of
        None \<Rightarrow> prefs
      | Some v \<Rightarrow> prefs\<lparr>strategyFollow := Some v\<rparr>)"

definition parse_autoRebalance :: "ENSTextRecords \<Rightarrow> UserPreferences \<Rightarrow> UserPreferences" where
  "parse_autoRebalance records prefs =
     (case truthy records K_autoRebalance of
        None \<Rightarrow> prefs
      | Some v \<Rightarrow> prefs\<lparr>autoRebalance := (v = ''true'')\<rparr>)"

definition parse_notificationPrefs :: "ENSTextRecords \<Rightarrow> UserPreferences \<Rightarrow> UserPreferences" where
  "parse_notificationPrefs records prefs =
     (case truthy records K_notificationPrefs of
        None \<Rightarrow> prefs
      | Some v \<Rightarrow>
          (case JSON_parse v of
             None \<Rightarrow> prefs
           | Some notifs \<Rightarrow>
               if typeof_object notifs then prefs\<lparr>notificationPrefs := notifs\<rparr> else prefs))"

text \<open>The ten blocks of \<open>parsePreferences\<close>, in the order of the source.\<close>

definition parsePreferences :: "ENSTextRecords \<Rightarrow> UserPreferences" where
  "parsePreferences records =
     parse_notificationPrefs records
       (parse_autoRebalance records
         (parse_strategyFollow records
           (parse_minLiquidity records
             (parse_blacklist records
               (parse_whitelist records
                 (parse_action records
                   (parse_maxSlippage records
                     (parse_risk records
                       (parse_preferredChains records DEFAULT_PREFERENCES)))))))))"

text \<open>
  \<open>getProfile\<close>: \<open>Inr None\<close> is the \<open>null\<close> result; the avatar lookup is outside any
  \<open>try\<close>, so what it throws leaves \<open>getProfile\<close> (\<open>Inl\<close>).
\<close>

definition getProfile :: "EnsClient \<Rightarrow> string \<Rightarrow> thrown + ENSProfile option" where
  "getProfile client nm =
     (let normalizedName = trim (toLowerCase nm) in
      case resolveName client normalizedName of
        None \<Rightarrow> Inr None
      | Some addr \<Rightarrow>
          if addr = [] then Inr None
          else
            (let records = getAllTextRecords client normalizedName;
                 (following, owner, prefs) =
                   (case truthy records K_strategyFollow of
                      Some followed \<Rightarrow>
                        (True, Some followed,
                         parsePreferences (getAllTextRecords client followed))
                    | None \<Rightarrow> (False, None, parsePreferences records))
             in case getEnsAvatar client normalizedName of
                  Inl e \<Rightarrow> Inl e
                | Inr av \<Rightarrow>
                    Inr (Some \<lparr> name = normalizedName,
                                address = addr,
                                avatar = (case av of None \<Rightarrow> None
                                          | Some a \<Rightarrow> if a = [] then None else Some a),
                                preferences = prefs,
                                isFollowingStrategy = following,
                                followedStrategyOwner = owner \<rparr>)))"

section \<open>Yield aggregator (services/yieldService.ts)\<close>

text \<open>
  Observable effects of a call, in the order they are issued: an HTTP request, a
  \<open>sleep\<close> of the retry wrapper, and the two calls into the routing SDK (with the
  source and destination chain of the request, and the identifier of the route).
\<close>

datatype effect =
    Fetch string
  | Sleep nat
  | SdkGetRoutes int int
  | SdkExecuteRoute string

record OpportunityMetadata =
  protocolName :: string
  vaultName :: string
  vaultVersion :: "string option"
  isAudited :: bool

text \<open>
  \<open>oid\<close> is the field \<open>id\<close>; the icon fields of the display metadata are left out.
  A parameter descriptor is the pair of its name and type. In the records that follow, a
  field whose name another record already has carries a prefix (\<open>q_\<close>, \<open>src_\<close>,
  \<open>lp_\<close>, \<open>yv_\<close>, \<open>tv_\<close>, \<open>ex_\<close>, \<open>st_\<close>).
\<close>

record YieldOpportunity =
  oid :: string
  protocol :: string
  protocolSlug :: string
  chainId :: int
  chainName :: string
  token :: string
  tokenAddress :: string
  vaultAddress :: string
  apy :: number
  tvlUsd :: real
  riskLevel :: RiskLevel
  depositFunction :: string
  depositParams :: "(string \<times> string) list"
  withdrawalFunction :: string
  withdrawalParams :: "(string \<times> string) list"
  metadata :: OpportunityMetadata

text \<open>\<open>YieldQueryParams\<close>: every field is optional.\<close>

record YieldQueryParams =
  q_chainId :: "int option"
  q_token :: "string option"
  q_minApy :: "real option"
  q_maxApy :: "real option"
  q_minTvlUsd :: "real option"
  q_riskTolerance :: "RiskTolerance option"
  q_whitelistedProtocols :: "string list option"
  q_blacklistedProtocols :: "string list option"
  q_limit :: "int option"

record YieldSourceConfig =
  src_name :: string
  src_enabled :: bool
  src_weight :: real
  src_chains :: "int list"
  src_baseUrl :: "string option"

text \<open>The two entries of \<open>SUPPORTED_YIELD_SOURCES\<close>.\<close>

definition llama_source :: YieldSourceConfig where
  "llama_source =
     \<lparr> src_name = ''defillama'', src_enabled = True, src_weight = 0.6,
       src_chains = [1, 10, 137, 42161, 8453, 81457],
       src_baseUrl = Some ''https://yields.llama.fi'' \<rparr>"

definition yearn_source :: YieldSourceConfig where
  "yearn_source =
     \<lparr> src_name = ''yearn'', src_enabled = True, src_weight = 0.4,
       src_chains = [1, 10, 137, 42161, 8453],
       src_baseUrl = Some ''https://api.yearn.fi/v1/chains'' \<rparr>"

definition SUPPORTED_YIELD_SOURCES :: "YieldSourceConfig list" where
  "SUPPORTED_YIELD_SOURCES = [llama_source, yearn_source]"

text \<open>\<open>Object.entries(CHAIN_ID_TO_NAME)\<close>: integer keys in ascending order.\<close>

definition CHAIN_ID_TO_NAME :: "(int \<times> string) list" where
  "CHAIN_ID_TO_NAME =
     [(1, ''ethereum''), (10, ''optimism''), (137, ''polygon''), (8453, ''base''),
      (42161, ''arbitrum''), (59144, ''linea''), (81457, ''blast''), (534352, ''scroll'')]"

text \<open>
  \<open>PROTOCOL_METADATA\<close>: display name and risk level of the known protocols, looked up
  by the table's own keys.
\<close>

definition PROTOCOL_METADATA :: "string \<Rightarrow> (string \<times> RiskLevel) option" where
  "PROTOCOL_METADATA slug =
     (if slug = ''aave-v3'' then Some (''Aave V3'', Low)
      else if slug = ''compound-v3'' then Some (''Compound V3'', Low)
      else if slug = ''morpho'' then Some (''Morpho'', Low)
      else if slug = ''spark'' then Some (''Spark'', Low)
      else if slug = ''yearn-v3'' then Some (''Yearn V3'', Medium)
      else if slug = ''pendle'' then Some (''Pendle'', High)
      else if slug = ''silo'' then Some (''Silo'', High)
      else None)"

record CacheEntry =
  data :: "YieldOpportunity list"
  timestamp :: int

record YieldService =
  sources :: "YieldSourceConfig list"
  cache :: "string \<rightharpoonup> CacheEntry"

definition CACHE_TTL :: int where
  "CACHE_TTL = 5 * 60 * 1000"

text \<open>The constructor.\<close>

definition new_YieldService :: YieldService where
  "new_YieldService =
     \<lparr> sources = filter src_enabled SUPPORTED_YIELD_SOURCES, cache = Map.empty \<rparr>"

subsection \<open>The data sources\<close>

text \<open>
  A request either throws (network failure) or yields a response with its \<open>ok\<close> flag,
  its status and the outcome of \<open>response.json()\<close>. The payloads are typed as the
  adapters read them; the \<open>apy\<close> of a pool is the operand of a division, so the model
  keeps apart a missing key, \<open>null\<close> and a number.
\<close>

datatype 'a http_result =
    FetchThrows thrown
  | Response bool nat "thrown + 'a"

record LlamaPool =
  lp_project :: "string option"
  lp_chain :: "string option"
  lp_symbol :: string
  lp_pool :: string
  lp_apy :: numeric_field
  lp_tvlUsd :: "real option"
  lp_underlyingTokens :: "string list option"
  lp_poolMeta :: "string option"

record YearnVault =
  yv_type :: string
  yv_kind :: string
  yv_address :: string
  yv_symbol :: string
  yv_name :: string
  yv_version :: "string option"
  yv_token_address :: "string option"
  yv_net_apy :: "real option"
  yv_tvl :: "real option"

text \<open>
  The network as the aggregator sees it: the answer to the \<open>n\<close>-th attempt on the
  DefiLlama URL, and the answer for each Yearn URL.
\<close>

record Network =
  llama_fetch :: "string \<Rightarrow> nat \<Rightarrow> (LlamaPool list option) http_result"
  yearn_fetch :: "string \<Rightarrow> (YearnVault list) http_result"

fun string_of_nat :: "nat \<Rightarrow> string" where
  "string_of_nat n =
     (if n < 10 then [char_of (48 + n)]
      else string_of_nat (n div 10) @ [char_of (48 + n mod 10)])"

declare string_of_nat.simps [simp del]

text \<open>\<open>x || fallback\<close> on an optional string and an optional number.\<close>

definition or_string :: "string option \<Rightarrow> string \<Rightarrow> string" where
  "or_string x fallback = (case x of None \<Rightarrow> fallback | Some v \<Rightarrow> if v = [] then fallback else v)"

definition or_number :: "real option \<Rightarrow> real \<Rightarrow> real" where
  "or_number x fallback = (case x of None \<Rightarrow> fallback | Some v \<Rightarrow> if v = 0 then fallback else v)"

definition ZERO_ADDRESS :: string where
  "ZERO_ADDRESS = ''0x0000000000000000000000000000000000000000''"

definition erc4626_depositParams :: "(string \<times> string) list" where
  "erc4626_depositParams = [(''assets'', ''uint256''), (''receiver'', ''address'')]"

definition erc4626_withdrawalParams :: "(string \<times> string) list" where
  "erc4626_withdrawalParams =
     [(''assets'', ''uint256''), (''receiver'', ''address''), (''owner'', ''address'')]"

text \<open>An optional string in a template literal.\<close>

definition template :: "string option \<Rightarrow> string" where
  "template x = (case x of None \<Rightarrow> ''undefined'' | Some v \<Rightarrow> v)"

text \<open>
  One iteration of the DefiLlama loop: \<open>None\<close> is \<open>continue\<close>. \<open>pool.apy / 100\<close>
  has no guard: \<open>null\<close> divides to 0 and a missing \<open>apy\<close> to \<open>NaN\<close>. Where the
  opportunity is built, the pool has a project and a chain: the empty slug is in no table,
  and a missing chain matches no name.
\<close>

definition llama_opportunity :: "YieldSourceConfig \<Rightarrow> LlamaPool \<Rightarrow> YieldOpportunity option" where
  "llama_opportunity source pool =
     (let slug = (case lp_project pool of None \<Rightarrow> [] | Some p \<Rightarrow> toLowerCase p) in
      case PROTOCOL_METADATA slug of
        None \<Rightarrow> None
      | Some (mname, mrisk) \<Rightarrow>
          (case find (\<lambda>(cid, nm). Some nm = map_option toLowerCase (lp_chain pool))
                  CHAIN_ID_TO_NAME of
             None \<Rightarrow> None
           | Some (cid, nm) \<Rightarrow>
               if cid \<notin> set (src_chains source) then None
               else Some
                 \<lparr> oid = template (lp_chain pool) @ ''-'' @ template (lp_project pool)
                         @ ''-'' @ lp_symbol pool @ ''-'' @ lp_pool pool,
                   protocol = mname,
                   protocolSlug = slug,
                   chainId = cid,
                   chainName = template (lp_chain pool),
                   token = lp_symbol pool,
                   tokenAddress =
                     or_string (case lp_underlyingTokens pool of
                                  Some (t # _) \<Rightarrow> Some t | _ \<Rightarrow> None) ZERO_ADDRESS,
                   vaultAddress = lp_pool pool,
                   apy = num_div (ToNumber (lp_apy pool)) 100,
                   tvlUsd = or_number (lp_tvlUsd pool) 0,
                   riskLevel = mrisk,
                   depositFunction = ''deposit'',
                   depositParams = erc4626_depositParams,
                   withdrawalFunction = ''withdraw'',
                   withdrawalParams = erc4626_withdrawalParams,
                   metadata =
                     \<lparr> protocolName = mname,
                       vaultName = or_string (lp_poolMeta pool) (lp_symbol pool @ '' Vault''),
                       vaultVersion = None,
                       isAudited = True \<rparr> \<rparr>))"

definition base_url :: "YieldSourceConfig \<Rightarrow> string" where
  "base_url source = template (src_baseUrl source)"

text \<open>The body handed to the retry wrapper, at its \<open>n\<close>-th call.\<close>

definition llama_attempt ::
  "Network \<Rightarrow> YieldSourceConfig \<Rightarrow> nat \<Rightarrow> (thrown + YieldOpportunity list) \<times> effect list"
where
  "llama_attempt net source n =
     (let url = base_url source @ ''/pools'' in
      case llama_fetch net url n of
        FetchThrows e \<Rightarrow> (Inl e, [Fetch url])
      | Response ok st body \<Rightarrow>
          if \<not> ok then
            (Inl (JsError (''DefiLlama API error: '' @ string_of_nat st)), [Fetch url])
          else
            (case body of
               Inl e \<Rightarrow> (Inl e, [Fetch url])
             | Inr d \<Rightarrow>
                 (Inr (List.map_filter (llama_opportunity source)
                         (case d of None \<Rightarrow> [] | Some pools \<Rightarrow> pools)),
                  [Fetch url])))"

text \<open>
  \<open>withRetry\<close> (lib/utils.ts): the loop \<open>for (attempt = 0; attempt <= maxRetries; attempt++)\<close>
  from a given attempt on; after the loop the last error is thrown.
\<close>

function withRetry_loop ::
  "(nat \<Rightarrow> (thrown + 'a) \<times> effect list) \<Rightarrow> nat \<Rightarrow> nat \<Rightarrow> nat \<Rightarrow> thrown \<Rightarrow> nat
     \<Rightarrow> (thrown + 'a) \<times> effect list"
where
  "withRetry_loop fn maxRetries delayMs backoff lastError attempt =
     (if attempt \<le> maxRetries then
        (case fn attempt of
           (Inr v, fx) \<Rightarrow> (Inr v, fx)
         | (Inl e, fx) \<Rightarrow>
             if attempt = maxRetries then (Inl e, fx)
             else
               (let (r, fx') =
                      withRetry_loop fn maxRetries delayMs backoff e (Suc attempt)
                in (r, fx @ [Sleep (delayMs * backoff ^ attempt)] @ fx')))
      else (Inl lastError, []))"
  by pat_completeness auto
termination
  by (relation "measure (\<lambda>(fn, maxRetries, delayMs, backoff, lastError, attempt).
                  Suc maxRetries - attempt)") auto

declare withRetry_loop.simps [simp del]

definition withRetry ::
  "(nat \<Rightarrow> (thrown + 'a) \<times> effect list) \<Rightarrow> nat \<Rightarrow> nat \<Rightarrow> (thrown + 'a) \<times> effect list"
where
  "withRetry fn maxRetries delayMs = withRetry_loop fn maxRetries delayMs 2 NonError 0"

definition fetchDefiLlamaYields ::
  "YieldService \<Rightarrow> Network \<Rightarrow> (thrown + YieldOpportunity list) \<times> effect list"
where
  "fetchDefiLlamaYields svc net =
     (case find (\<lambda>s. src_name s = ''defillama'') (sources svc) of
        None \<Rightarrow> (Inr [], [])
      | Some source \<Rightarrow> withRetry (llama_attempt net source) 2 1000)"

definition yearn_opportunity :: "int \<Rightarrow> YearnVault \<Rightarrow> YieldOpportunity option" where
  "yearn_opportunity cid vault =
     (if yv_type vault \<noteq> ''v3'' \<or> yv_kind vault \<noteq> ''Vault'' then None
      else Some
        \<lparr> oid = ''yearn-'' @ string_of_nat (nat cid) @ ''-'' @ yv_address vault,
          protocol = ''Yearn V3'',
          protocolSlug = ''yearn-v3'',
          chainId = cid,
          chainName = (case map_of CHAIN_ID_TO_NAME cid of None \<Rightarrow> [] | Some nm \<Rightarrow> nm),
          token = yv_symbol vault,
          tokenAddress = or_string (yv_token_address vault) ZERO_ADDRESS,
          vaultAddress = yv_address vault,
          apy = Num (or_number (yv_net_apy vault) 0),
          tvlUsd = or_number (yv_tvl vault) 0,
          riskLevel = Medium,
          depositFunction = ''deposit'',
          depositParams = erc4626_depositParams,
          withdrawalFunction = ''withdraw'',
          withdrawalParams = erc4626_withdrawalParams,
          metadata =
            \<lparr> protocolName = ''Yearn V3'',
              vaultName = yv_name vault,
              vaultVersion = yv_version vault,
              isAudited = True \<rparr> \<rparr>)"

text \<open>
  One chain of the Yearn loop; a failed request, a response that is not \<open>ok\<close> and a
  body that cannot be read all contribute nothing.
\<close>

definition yearn_chain ::
  "Network \<Rightarrow> YieldSourceConfig \<Rightarrow> int \<Rightarrow> YieldOpportunity list \<times> effect list"
where
  "yearn_chain net source cid =
     (let url = base_url source @ ''/'' @ string_of_nat (nat cid) @ ''/vaults/all'' in
      case yearn_fetch net url of
        FetchThrows e \<Rightarrow> ([], [Fetch url])
      | Response ok st body \<Rightarrow>
          if \<not> ok then ([], [Fetch url])
          else
            (case body of
               Inl e \<Rightarrow> ([], [Fetch url])
             | Inr vaults \<Rightarrow> (List.map_filter (yearn_opportunity cid) vaults, [Fetch url])))"

definition fetchYearnYields ::
  "YieldService \<Rightarrow> Network \<Rightarrow> YieldOpportunity list \<times> effect list"
where
  "fetchYearnYields svc net =
     (case find (\<lambda>s. src_name s = ''yearn'') (sources svc) of
        None \<Rightarrow> ([], [])
      | Some source \<Rightarrow>
          (let rs = map (yearn_chain net source) (src_chains source)
           in (concat (map fst rs), concat (map snd rs))))"

subsection \<open>Merge, sort and cache\<close>

text \<open>
  \<open>Array.prototype.sort\<close> with a comparator is a stable sort: an element goes before
  the first element it does not compare greater than. A comparator result of \<open>NaN\<close>
  counts as 0 (\<open>SortCompare\<close>), so an opportunity with a \<open>NaN\<close> APY compares equal to
  every other one. With such a comparator ECMAScript leaves the order to the
  implementation; the stable insertion below is one such order.
\<close>

fun SortCompare :: "number \<Rightarrow> real" where
  "SortCompare NaN = 0"
| "SortCompare (Num v) = v"

fun insort_by :: "('a \<Rightarrow> 'a \<Rightarrow> number) \<Rightarrow> 'a \<Rightarrow> 'a list \<Rightarrow> 'a list" where
  "insort_by cmp x [] = [x]"
| "insort_by cmp x (y # ys) =
     (if SortCompare (cmp x y) \<le> 0 then x # y # ys else y # insort_by cmp x ys)"

definition array_sort :: "('a \<Rightarrow> 'a \<Rightarrow> number) \<Rightarrow> 'a list \<Rightarrow> 'a list" where
  "array_sort cmp xs = foldr (insort_by cmp) xs []"

definition by_apy_desc :: "YieldOpportunity \<Rightarrow> YieldOpportunity \<Rightarrow> number" where
  "by_apy_desc a b = num_sub (apy b) (apy a)"

definition cacheKey :: string where
  "cacheKey = ''all-yields''"

text \<open>
  \<open>fetchAllYields\<close>, given the reading of \<open>Date.now()\<close> at the cache check and the
  reading when the result is stored. Both adapters are started by \<open>Promise.all\<close>, so
  the requests of both are issued also when the first one fails; then nothing is cached.
\<close>

definition fetchAllYields ::
  "YieldService \<Rightarrow> Network \<Rightarrow> int \<Rightarrow> int
     \<Rightarrow> (thrown + YieldOpportunity list) \<times> YieldService \<times> effect list"
where
  "fetchAllYields svc net now_check now_store =
     (let hit = (case cache svc cacheKey of
                   None \<Rightarrow> None
                 | Some cached \<Rightarrow>
                     if now_check - timestamp cached < CACHE_TTL then Some (data cached)
                     else None)
      in case hit of
           Some d \<Rightarrow> (Inr d, svc, [])
         | None \<Rightarrow>
             (let (llama, fx1) = fetchDefiLlamaYields svc net;
                  (yearnYields, fx2) = fetchYearnYields svc net
              in case llama of
                   Inl e \<Rightarrow> (Inl e, svc, fx1 @ fx2)
                 | Inr defiLlamaYields \<Rightarrow>
                     (let allYields = array_sort by_apy_desc (defiLlamaYields @ yearnYields)
                      in (Inr allYields,
                          svc\<lparr>cache := (cache svc)
                                 (cacheKey \<mapsto> \<lparr>data = allYields, timestamp = now_store\<rparr>)\<rparr>,
                          fx1 @ fx2))))"

definition clearCache :: "YieldService \<Rightarrow> YieldService" where
  "clearCache svc = svc\<lparr>cache := Map.empty\<rparr>"

subsection \<open>Queries\<close>

definition allowedRiskLevels :: "RiskTolerance \<Rightarrow> RiskLevel list" where
  "allowedRiskLevels r =
     (case r of
        Conservative \<Rightarrow> [Low]
      | Moderate \<Rightarrow> [Low, Medium]
      | Aggressive \<Rightarrow> [Low, Medium, High])"

text \<open>The filters of \<open>queryYields\<close>, one definition for each \<open>if\<close> of the source.\<close>

definition filter_chainId :: "YieldQueryParams \<Rightarrow> YieldOpportunity list \<Rightarrow> YieldOpportunity list" where
  "filter_chainId params yields =
     (case q_chainId params of
        None \<Rightarrow> yields
      | Some c \<Rightarrow> if c = 0 then yields else filter (\<lambda>y. chainId y = c) yields)"

definition filter_token :: "YieldQueryParams \<Rightarrow> YieldOpportunity list \<Rightarrow> YieldOpportunity list" where
  "filter_token params yields =
     (case q_token params of
        None \<Rightarrow> yields
      | Some t \<Rightarrow>
          if t = [] then yields
          else filter (\<lambda>y. toUpperCase (token y) = toUpperCase t) yields)"

definition filter_minApy :: "YieldQueryParams \<Rightarrow> YieldOpportunity list \<Rightarrow> YieldOpportunity list" where
  "filter_minApy params yields =
     (case q_minApy params of
        None \<Rightarrow> yields
      | Some m \<Rightarrow> filter (\<lambda>y. num_ge (apy y) (Num m)) yields)"

definition filter_maxApy :: "YieldQueryParams \<Rightarrow> YieldOpportunity list \<Rightarrow> YieldOpportunity list" where
  "filter_maxApy params yields =
     (case q_maxApy params of
        None \<Rightarrow> yields
      | Some m \<Rightarrow> filter (\<lambda>y. num_le (apy y) (Num m)) yields)"

definition filter_minTvl :: "YieldQueryParams \<Rightarrow> YieldOpportunity list \<Rightarrow> YieldOpportunity list" where
  "filter_minTvl params yields =
     (case q_minTvlUsd params of
        None \<Rightarrow> yields
      | Some m \<Rightarrow> filter (\<lambda>y. tvlUsd y \<ge> m) yields)"

definition filter_risk :: "YieldQueryParams \<Rightarrow> YieldOpportunity list \<Rightarrow> YieldOpportunity list" where
  "filter_risk params yields =
     (case q_riskTolerance params of
        None \<Rightarrow> yields
      | Some r \<Rightarrow> filter (\<lambda>y. riskLevel y \<in> set (allowedRiskLevels r)) yields)"

definition filter_whitelist :: "YieldQueryParams \<Rightarrow> YieldOpportunity list \<Rightarrow> YieldOpportunity list" where
  "filter_whitelist params yields =
     (case q_whitelistedProtocols params of
        None \<Rightarrow> yields
      | Some ps \<Rightarrow>
          if ps = [] then yields
          else (let whitelist = map toLowerCase ps
                in filter (\<lambda>y. protocolSlug y \<in> set whitelist) yields))"

definition filter_blacklist :: "YieldQueryParams \<Rightarrow> YieldOpportunity list \<Rightarrow> YieldOpportunity list" where
  "filter_blacklist params yields =
     (case q_blacklistedProtocols params of
        None \<Rightarrow> yields
      | Some ps \<Rightarrow>
          if ps = [] then yields
          else (let blacklist = map toLowerCase ps
                in filter (\<lambda>y. protocolSlug y \<notin> set blacklist) yields))"

text \<open>
  \<open>yields.slice(0, limit)\<close>: a negative end counts from the end of the array; a limit
  of 0 is falsy and skips the step.
\<close>

definition apply_limit :: "YieldQueryParams \<Rightarrow> YieldOpportunity list \<Rightarrow> YieldOpportunity list" where
  "apply_limit params yields =
     (case q_limit params of
        None \<Rightarrow> yields
      | Some n \<Rightarrow>
          if n = 0 then yields
          else if n < 0 then take (nat (int (length yields) + n)) yields
          else take (nat n) yields)"

definition filter_yields :: "YieldQueryParams \<Rightarrow> YieldOpportunity list \<Rightarrow> YieldOpportunity list" where
  "filter_yields params yields =
     apply_limit params
       (filter_blacklist params
         (filter_whitelist params
           (filter_risk params
             (filter_minTvl params
               (filter_maxApy params
                 (filter_minApy params
                   (filter_token params
                     (filter_chainId params yields))))))))"

definition queryYields ::
  "YieldService \<Rightarrow> Network \<Rightarrow> int \<Rightarrow> int \<Rightarrow> YieldQueryParams
     \<Rightarrow> (thrown + YieldOpportunity list) \<times> YieldService \<times> effect list"
where
  "queryYields svc net now_check now_store params =
     (case fetchAllYields svc net now_check now_store of
        (Inl e, svc', fx) \<Rightarrow> (Inl e, svc', fx)
      | (Inr yields, svc', fx) \<Rightarrow> (Inr (filter_yields params yields), svc', fx))"

definition getBestYield ::
  "YieldService \<Rightarrow> Network \<Rightarrow> int \<Rightarrow> int \<Rightarrow> int \<Rightarrow> string
     \<Rightarrow> RiskTolerance option \<Rightarrow> real option
     \<Rightarrow> (thrown + YieldOpportunity option) \<times> YieldService \<times> effect list"
where
  "getBestYield svc net now_check now_store cid tok risk minTvl =
     (case queryYields svc net now_check now_store
             \<lparr> q_chainId = Some cid, q_token = Some tok, q_minApy = None, q_maxApy = None,
               q_minTvlUsd = minTvl, q_riskTolerance = risk,
               q_whitelistedProtocols = None, q_blacklistedProtocols = None,
               q_limit = Some 1 \<rparr> of
        (Inl e, svc', fx) \<Rightarrow> (Inl e, svc', fx)
      | (Inr yields, svc', fx) \<Rightarrow>
          (Inr (case yields of [] \<Rightarrow> None | y # _ \<Rightarrow> Some y), svc', fx))"

section \<open>Route quoter and intent composer (services/lifiService.ts)\<close>

text \<open>
  \<open>TOKEN_ADDRESSES\<close>: chain identifier, then token symbol. The chain identifiers are
  those of mainnet (1), arbitrum (42161), base (8453) and optimism (10).
\<close>

definition TOKEN_ADDRESSES :: "int \<Rightarrow> (string \<Rightarrow> string option) option" where
  "TOKEN_ADDRESSES chain =
     (if chain = 1 then Some
        [''USDC'' \<mapsto> ''0xA0b86991c6218b36c1d19D4a2e9Eb0cE3606eB48'',
         ''USDT'' \<mapsto> ''0xdAC17F958D2ee523a2206206994597C13D831ec7'',
         ''DAI'' \<mapsto> ''0x6B175474E89094C44Da98b954EedeAC495271d0F'',
         ''WETH'' \<mapsto> ''0xC02aaA39b223FE8D0A0e5C4F27eAD9083C756Cc2'',
         ''WBTC'' \<mapsto> ''0x2260FAC5E5542a773Aa44fBCfeDf7C193bc2C599'']
      else if chain = 42161 then Some
        [''USDC'' \<mapsto> ''0xaf88d065e77c8cC2239327C5EDb3A432268e5831'',
         ''USDT'' \<mapsto> ''0xFd086bC7CD5C481DCC9C85ebE478A1C0b69FCbb9'',
         ''DAI'' \<mapsto> ''0xDA10009cBd5D07dd0CeCc66161FC93D7c9000da1'',
         ''WETH'' \<mapsto> ''0x82aF49447D8a07e3bd95BD0d56f35241523fBab1'']
      else if chain = 8453 then Some
        [''USDC'' \<mapsto> ''0x833589fCD6eDb6E08f4c7C32D4f71b54bdA02913'',
         ''USDT'' \<mapsto> ''0xfde4C96c8593536E31F229EA8f37b2ADa2699bb2'',
         ''DAI'' \<mapsto> ''0x50c5725949A6F0c72E6C4a641F24049A917DB0Cb'',
         ''WETH'' \<mapsto> ''0x4200000000000000000000000000000000000006'']
      else if chain = 10 then Some
        [''USDC'' \<mapsto> ''0x0b2C639c533813f4Aa9D7837CAf62653d097Ff85'',
         ''USDT'' \<mapsto> ''0x94b008aA00579c1307B0EF2c499aD98a8ce58e58'',
         ''DAI'' \<mapsto> ''0xDA10009cBd5D07dd0CeCc66161FC93D7c9000da1'',
         ''WETH'' \<mapsto> ''0x4200000000000000000000000000000000000006'']
      else None)"

text \<open>\<open>TOKEN_ADDRESSES[chain]?.[symbol.toUpperCase()]\<close>\<close>

definition token_address :: "int \<Rightarrow> string \<Rightarrow> string option" where
  "token_address chain symbol =
     (case TOKEN_ADDRESSES chain of
        None \<Rightarrow> None
      | Some tokens \<Rightarrow> tokens (toUpperCase symbol))"

text \<open>A route of the routing SDK, with the fields this code reads.\<close>

record Route =
  route_id :: string
  toAmount :: string
  gasCostUSD :: "string option"
  step_durations :: "nat list"

record RouteOptions =
  opt_slippage :: real
  opt_order :: string
  allowSwitchChain :: bool

text \<open>\<open>fromAmount\<close> is the integer whose decimal notation the request carries.\<close>

record RoutesRequest =
  fromChainId :: int
  toChainId :: int
  fromTokenAddress :: string
  toTokenAddress :: string
  req_fromAmount :: int
  fromAddress :: string
  toAddress :: string
  options :: RouteOptions

record IntentRequest =
  fromChain :: int
  fromToken :: string
  fromAmount :: string
  toChain :: int
  toToken :: string
  userAddress :: string
  ensName :: "string option"
  slippage :: "real option"
  preferredProtocols :: "string list option"

text \<open>
  The libraries the service calls: \<open>parseUnits\<close> of viem, and \<open>getRoutes\<close> and
  \<open>executeRoute\<close> of the routing SDK. \<open>getRoutes\<close> answers with the \<open>routes\<close>
  field of its response, which may be missing.
\<close>

record Sdk =
  parseUnits :: "string \<Rightarrow> nat \<Rightarrow> thrown + int"
  sdk_getRoutes :: "RoutesRequest \<Rightarrow> thrown + Route list option"
  sdk_executeRoute :: "Route \<Rightarrow> thrown + Route"

definition getBestRoute :: "Sdk \<Rightarrow> 'a IntentRequest_scheme \<Rightarrow> (thrown + Route option) \<times> effect list"
where
  "getBestRoute sdk request =
     (case (token_address (fromChain request) (fromToken request),
            token_address (toChain request) (toToken request)) of
        (Some fromTokenAddr, Some toTokenAddr) \<Rightarrow>
          (case parseUnits sdk (fromAmount request) 6 of
             Inl e \<Rightarrow> (Inl e, [])
           | Inr amountInWei \<Rightarrow>
               (let params =
                      \<lparr> fromChainId = fromChain request,
                        toChainId = toChain request,
                        fromTokenAddress = fromTokenAddr,
                        toTokenAddress = toTokenAddr,
                        req_fromAmount = amountInWei,
                        fromAddress = userAddress request,
                        toAddress = userAddress request,
                        options =
                          \<lparr> opt_slippage =
                              (case slippage request of
                                 None \<Rightarrow> 0.01
                               | Some sl \<Rightarrow> if sl = 0 then 0.01 else sl) * 100,
                            opt_order = ''RECOMMENDED'',
                            allowSwitchChain = True \<rparr> \<rparr>;
                    fx = [SdkGetRoutes (fromChain request) (toChain request)]
                in case sdk_getRoutes sdk params of
                     Inl e \<Rightarrow> (Inl e, fx)
                   | Inr None \<Rightarrow> (Inr None, fx)
                   | Inr (Some []) \<Rightarrow> (Inr None, fx)
                   | Inr (Some (r # _)) \<Rightarrow> (Inr (Some r), fx)))
      | _ \<Rightarrow>
          (Inl (JsError (''Token not supported on one of the chains: ''
                          @ fromToken request @ '' -> '' @ toToken request)), []))"

record TargetVault =
  tv_address :: string
  tv_protocol :: string
  tv_depositFunction :: string
  tv_depositParams :: "(string \<times> string) list"

record ComposedIntent = IntentRequest +
  targetVault :: TargetVault
  expectedApy :: number
  totalSteps :: nat
  estimatedGasUsd :: real

text \<open>
  \<open>composeIntentWithDeposit\<close>: the opportunity's \<open>depositParams\<close> is an array, hence
  truthy, and is taken as it is.
\<close>

definition composeIntentWithDeposit :: "IntentRequest \<Rightarrow> YieldOpportunity \<Rightarrow> ComposedIntent" where
  "composeIntentWithDeposit request targetYield =
     IntentRequest.extend request
       (ComposedIntent.fields
          \<lparr> tv_address = vaultAddress targetYield,
            tv_protocol = protocol targetYield,
            tv_depositFunction = or_string (Some (depositFunction targetYield)) ''deposit'',
            tv_depositParams = depositParams targetYield \<rparr>
          (apy targetYield) 2 0)"

datatype UpdateStatus = Pending | Loading | Success | Failure

text \<open>An \<open>ExecutionStatus\<close> passed to \<open>onUpdate\<close>: status, error and message.\<close>

datatype ExecutionStatus = ExecutionStatus UpdateStatus "string option" string

text \<open>
  \<open>executeRoute\<close> of the service: the result, the effects, and the updates it reports
  to an \<open>onUpdate\<close> callback when one is given.
\<close>

definition executeRoute ::
  "Sdk \<Rightarrow> Route \<Rightarrow> (thrown + Route) \<times> effect list \<times> ExecutionStatus list"
where
  "executeRoute sdk r =
     (let started = ExecutionStatus Loading None ''Starting cross-chain transaction...''
      in case sdk_executeRoute sdk r of
           Inr executedRoute \<Rightarrow>
             (Inr executedRoute, [SdkExecuteRoute (route_id r)],
              [started, ExecutionStatus Success None ''Transaction completed successfully!''])
         | Inl e \<Rightarrow>
             (let errorMessage = error_message e ''Execution failed''
              in (Inl e, [SdkExecuteRoute (route_id r)],
                  [started, ExecutionStatus Failure (Some errorMessage) errorMessage])))"

datatype StepType = StepBridge | StepSwap | StepApprove | StepDeposit | StepWithdraw

datatype StepStatus = StepPending | StepInProgress | StepCompleted | StepFailed

record ExecutionStep =
  st_type :: StepType
  st_status :: StepStatus
  st_chainId :: int
  st_txHash :: "string option"
  st_explorerUrl :: "string option"
  st_message :: string
  st_timestamp :: int

datatype ExecStatus = ExPending | ExExecuting | ExCompleted | ExFailed

record IntentExecution =
  ex_id :: string
  ex_intent :: ComposedIntent
  ex_route :: Route
  ex_steps :: "ExecutionStep list"
  ex_status :: ExecStatus
  ex_error :: "string option"
  createdAt :: int
  updatedAt :: int

text \<open>
  \<open>executeComposedIntent\<close>, given the reading of \<open>Date.now()\<close> and the identifier
  drawn from \<open>Math.random()\<close>. No callback is handed to \<open>executeRoute\<close>.
\<close>

definition executeComposedIntent ::
  "Sdk \<Rightarrow> int \<Rightarrow> string \<Rightarrow> ComposedIntent \<Rightarrow> Route \<Rightarrow> 'w
     \<Rightarrow> (thrown + IntentExecution) \<times> effect list"
where
  "executeComposedIntent sdk now rnd intent r walletClient =
     (case executeRoute sdk r of
        (Inl e, fx, updates) \<Rightarrow> (Inl e, fx)
      | (Inr executed, fx, updates) \<Rightarrow>
          (Inr \<lparr> ex_id = rnd,
                 ex_intent = intent,
                 ex_route = r,
                 ex_steps = [],
                 ex_status = ExCompleted,
                 ex_error = None,
                 createdAt = now,
                 updatedAt = now \<rparr>,
           fx))"

section \<open>Execution orchestrator (hooks/useIntent.ts)\<close>

datatype IntentStep =
    Input
  | FetchingRoute
  | FindingYield
  | Composing
  | Ready
  | Executing
  | Completed
  | Failed

record IntentState =
  step :: IntentStep
  route :: "Route option"
  targetYield :: "YieldOpportunity option"
  composedIntent :: "ComposedIntent option"
  execution :: "IntentExecution option"
  error :: "string option"

definition initialState :: IntentState where
  "initialState =
     \<lparr> step = Input, route = None, targetYield = None, composedIntent = None,
       execution = None, error = None \<rparr>"

text \<open>
  Both actions report through \<open>setState\<close> with an updater; the model returns the states
  the hook takes one after the other, starting from the current state \<open>prev\<close>.
\<close>

record BuildResult =
  br_states :: "IntentState list"
  br_service :: YieldService
  br_effects :: "effect list"

text \<open>The \<open>catch\<close> block of \<open>buildIntent\<close>, applied to the state reached so far.\<close>

definition build_failed :: "IntentState \<Rightarrow> thrown \<Rightarrow> IntentState" where
  "build_failed s e = s\<lparr>step := Failed, error := Some (error_message e ''Failed to build intent'')\<rparr>"

definition buildIntent ::
  "Sdk \<Rightarrow> Network \<Rightarrow> YieldService \<Rightarrow> int \<Rightarrow> int \<Rightarrow> IntentRequest \<Rightarrow> UserPreferences
     \<Rightarrow> IntentState \<Rightarrow> BuildResult"
where
  "buildIntent sdk net svc now_check now_store request prefs prev =
     (let s1 = prev\<lparr>step := FetchingRoute, error := None\<rparr> in
      case getBestRoute sdk request of
        (Inl e, fx1) \<Rightarrow>
          \<lparr> br_states = [s1, build_failed s1 e], br_service = svc, br_effects = fx1 \<rparr>
      | (Inr None, fx1) \<Rightarrow>
          \<lparr> br_states = [s1, build_failed s1 (JsError ''No route found for this intent'')],
            br_service = svc, br_effects = fx1 \<rparr>
      | (Inr (Some r), fx1) \<Rightarrow>
          (let s2 = s1\<lparr>route := Some r, step := FindingYield\<rparr> in
           case getBestYield svc net now_check now_store (toChain request) (toToken request)
                  (Some (riskTolerance prefs)) (Some (minLiquidityUsd prefs)) of
             (Inl e, svc', fx2) \<Rightarrow>
               \<lparr> br_states = [s1, s2, build_failed s2 e], br_service = svc',
                 br_effects = fx1 @ fx2 \<rparr>
           | (Inr None, svc', fx2) \<Rightarrow>
               \<lparr> br_states =
                   [s1, s2,
                    build_failed s2
                      (JsError (''No yield opportunities found matching your criteria ''
                                @ ''on the destination chain''))],
                 br_service = svc', br_effects = fx1 @ fx2 \<rparr>
           | (Inr (Some ty), svc', fx2) \<Rightarrow>
               if JString (protocolSlug ty) \<in> set (blacklistedProtocols prefs) then
                 \<lparr> br_states =
                     [s1, s2,
                      build_failed s2
                        (JsError (''The best yield opportunity is from '' @ protocol ty
                                  @ '', which is in your blacklist''))],
                   br_service = svc', br_effects = fx1 @ fx2 \<rparr>
               else
                 (let s3 = s2\<lparr>targetYield := Some ty, step := Composing\<rparr>;
                      composed = composeIntentWithDeposit request ty;
                      s4 = s3\<lparr>composedIntent := Some composed, step := Ready\<rparr>
                  in \<lparr> br_states = [s1, s2, s3, s4], br_service = svc',
                       br_effects = fx1 @ fx2 \<rparr>)))"

text \<open>
  \<open>executeIntent\<close> reads \<open>route\<close> and \<open>composedIntent\<close> from the state of the render
  that created the callback (\<open>snapshot\<close>) and updates the current state (\<open>prev\<close>).
\<close>

definition executeIntent ::
  "Sdk \<Rightarrow> int \<Rightarrow> string \<Rightarrow> IntentState \<Rightarrow> IntentState \<Rightarrow> 'w
     \<Rightarrow> IntentState list \<times> effect list"
where
  "executeIntent sdk now rnd snapshot prev walletClient =
     (case (route snapshot, composedIntent snapshot) of
        (Some r, Some intent) \<Rightarrow>
          (let s1 = prev\<lparr>step := Executing, error := None\<rparr> in
           case executeComposedIntent sdk now rnd intent r walletClient of
             (Inr ex, fx) \<Rightarrow>
               ([s1, s1\<lparr>execution := Some ex,
                         step := (if ex_status ex = ExCompleted then Completed else Failed)\<rparr>],
                fx)
           | (Inl e, fx) \<Rightarrow>
               ([s1, s1\<lparr>step := Failed, error := Some (error_message e ''Execution failed'')\<rparr>],
                fx))
      | _ \<Rightarrow> ([prev\<lparr>step := Failed, error := Some ''No intent to execute''\<rparr>], []))"

text \<open>\<open>reset\<close> and the derived flag \<open>canExecute\<close>.\<close>

definition reset :: "IntentState \<Rightarrow> IntentState" where
  "reset prev = initialState"

definition canExecute :: "IntentState \<Rightarrow> bool" where
  "canExecute s = (step s = Ready \<and> composedIntent s \<noteq> None \<and> route s \<noteq> None)"

section \<open>Service states and sample collaborators\<close>

text \<open>
  The states the aggregator singleton can be in: it is constructed once, and its cache
  is private, written by \<open>fetchAllYields\<close> and emptied by \<open>clearCache\<close> only.
\<close>

inductive reachable :: "YieldService \<Rightarrow> bool" where
  constructed: "reachable new_YieldService"
| fetched: "reachable svc \<Longrightarrow> fetchAllYields svc net now_check now_store = (res, svc', fx)
     \<Longrightarrow> reachable svc'"
| cleared: "reachable svc \<Longrightarrow> reachable (clearCache svc)"

text \<open>Sorted by APY, highest first: every entry has an APY \<open>>=\<close> that of each later one.\<close>

definition apy_descending :: "YieldOpportunity list \<Rightarrow> bool" where
  "apy_descending ys = sorted_wrt (\<lambda>a b. num_ge (apy a) (apy b)) ys"

text \<open>Every protocol slug of the list is its own lower-case form.\<close>

definition lowercase_slugs :: "YieldOpportunity list \<Rightarrow> bool" where
  "lowercase_slugs ys = list_all (\<lambda>y. toLowerCase (protocolSlug y) = protocolSlug y) ys"

text \<open>No entry of the list has the APY \<open>NaN\<close>.\<close>

definition numeric_apys :: "YieldOpportunity list \<Rightarrow> bool" where
  "numeric_apys ys = list_all (\<lambda>y. apy y \<noteq> NaN) ys"

text \<open>
  The cache holds at most the entry under \<open>cacheKey\<close>, and the cached list has
  lower-case slugs.
\<close>

definition cache_ok :: "YieldService \<Rightarrow> bool" where
  "cache_ok svc =
     (dom (cache svc) \<subseteq> {cacheKey}
      \<and> (case cache svc cacheKey of
            None \<Rightarrow> True
          | Some e \<Rightarrow> lowercase_slugs (data e)))"

text \<open>A cached list whose APYs are all numbers is sorted.\<close>

definition cache_sorted :: "YieldService \<Rightarrow> bool" where
  "cache_sorted svc =
     (case cache svc cacheKey of
        None \<Rightarrow> True
      | Some e \<Rightarrow> numeric_apys (data e) \<longrightarrow> apy_descending (data e))"

text \<open>Query parameters that set the risk tolerance and nothing else.\<close>

definition only_risk :: "RiskTolerance \<Rightarrow> YieldQueryParams" where
  "only_risk r =
     \<lparr> q_chainId = None, q_token = None, q_minApy = None, q_maxApy = None,
       q_minTvlUsd = None, q_riskTolerance = Some r, q_whitelistedProtocols = None,
       q_blacklistedProtocols = None, q_limit = None \<rparr>"

text \<open>A routing SDK that quotes one route and executes it, and one whose execution fails.\<close>

definition sample_route :: Route where
  "sample_route =
     \<lparr> route_id = ''route-1'', toAmount = ''99500000'', gasCostUSD = Some ''0.42'',
       step_durations = [60, 30] \<rparr>"

definition sample_sdk :: Sdk where
  "sample_sdk =
     \<lparr> parseUnits = (\<lambda>v d. if v = ''100'' \<and> d = 6 then Inr 100000000
                             else Inl (JsError ''InvalidDecimalNumberError'')),
       sdk_getRoutes = (\<lambda>req. Inr (Some [sample_route])),
       sdk_executeRoute = (\<lambda>r. Inr r) \<rparr>"

definition failing_sdk :: Sdk where
  "failing_sdk = sample_sdk\<lparr>sdk_executeRoute := (\<lambda>r. Inl (JsError ''User rejected the request''))\<rparr>"

definition sample_request :: IntentRequest where
  "sample_request =
     \<lparr> fromChain = 1, fromToken = ''USDC'', fromAmount = ''100'', toChain = 8453,
       toToken = ''usdc'', userAddress = ''0x1111111111111111111111111111111111111111'',
       ensName = Some ''bob.eth'', slippage = Some 0.01, preferredProtocols = None \<rparr>"

definition foo_request :: IntentRequest where
  "foo_request = sample_request\<lparr>fromToken := ''FOO''\<rparr>"

text \<open>Two DefiLlama pools of known protocols, one of an unknown protocol, one Yearn vault.\<close>

definition sample_pools :: "LlamaPool list" where
  "sample_pools =
     [ \<lparr> lp_project = Some ''aave-v3'', lp_chain = Some ''Base'', lp_symbol = ''USDC'',
         lp_pool = ''pool-aave'', lp_apy = FieldNumber 5.2, lp_tvlUsd = Some 250000000,
         lp_underlyingTokens = None, lp_poolMeta = None \<rparr>,
       \<lparr> lp_project = Some ''Pendle'', lp_chain = Some ''Base'', lp_symbol = ''USDC'',
         lp_pool = ''pool-pendle'', lp_apy = FieldNumber 12, lp_tvlUsd = Some 8000000,
         lp_underlyingTokens = None, lp_poolMeta = None \<rparr>,
       \<lparr> lp_project = Some ''uniswap-v3'', lp_chain = Some ''Base'', lp_symbol = ''USDC'',
         lp_pool = ''pool-uni'', lp_apy = FieldNumber 30, lp_tvlUsd = Some 9000000,
         lp_underlyingTokens = None, lp_poolMeta = None \<rparr> ]"

definition sample_vault :: YearnVault where
  "sample_vault =
     \<lparr> yv_type = ''v3'', yv_kind = ''Vault'', yv_address = ''vault-yearn'',
       yv_symbol = ''USDC'', yv_name = ''USDC yVault'', yv_version = Some ''3.0.2'',
       yv_token_address = None, yv_net_apy = Some 0.061, yv_tvl = Some 40000000 \<rparr>"

definition sample_network :: Network where
  "sample_network =
     \<lparr> llama_fetch = (\<lambda>url n. if url = ''https://yields.llama.fi/pools''
                               then Response True 200 (Inr (Some sample_pools))
                               else FetchThrows (JsError ''fetch failed'')),
       yearn_fetch = (\<lambda>url. if url = ''https://api.yearn.fi/v1/chains/8453/vaults/all''
                             then Response True 200 (Inr [sample_vault])
                             else Response False 404 (Inl NonError)) \<rparr>"

text \<open>
  A DefiLlama answer in which the second of three pools carries no \<open>apy\<close>, with no
  Yearn vault on any chain.
\<close>

definition gap_pools :: "LlamaPool list" where
  "gap_pools =
     [ \<lparr> lp_project = Some ''aave-v3'', lp_chain = Some ''Base'', lp_symbol = ''USDC'',
         lp_pool = ''pool-aave'', lp_apy = FieldNumber 1, lp_tvlUsd = Some 250000000,
         lp_underlyingTokens = None, lp_poolMeta = None \<rparr>,
       \<lparr> lp_project = Some ''compound-v3'', lp_chain = Some ''Base'', lp_symbol = ''USDC'',
         lp_pool = ''pool-compound'', lp_apy = FieldUndefined, lp_tvlUsd = Some 90000000,
         lp_underlyingTokens = None, lp_poolMeta = None \<rparr>,
       \<lparr> lp_project = Some ''morpho'', lp_chain = Some ''Base'', lp_symbol = ''USDC'',
         lp_pool = ''pool-morpho'', lp_apy = FieldNumber 5, lp_tvlUsd = Some 120000000,
         lp_underlyingTokens = None, lp_poolMeta = None \<rparr> ]"

definition gap_network :: Network where
  "gap_network =
     \<lparr> llama_fetch = (\<lambda>url n. if url = ''https://yields.llama.fi/pools''
                               then Response True 200 (Inr (Some gap_pools))
                               else FetchThrows (JsError ''fetch failed'')),
       yearn_fetch = (\<lambda>url. Response False 404 (Inl NonError)) \<rparr>"

definition aave_low :: YieldOpportunity where
  "aave_low =
     \<lparr> oid = ''Base-aave-v3-USDC-pool-aave'', protocol = ''Aave V3'',
       protocolSlug = ''aave-v3'', chainId = 8453, chainName = ''Base'', token = ''USDC'',
       tokenAddress = ZERO_ADDRESS, vaultAddress = ''pool-aave'', apy = Num (1 / 100),
       tvlUsd = 250000000, riskLevel = Low, depositFunction = ''deposit'',
       depositParams = erc4626_depositParams, withdrawalFunction = ''withdraw'',
       withdrawalParams = erc4626_withdrawalParams,
       metadata = \<lparr> protocolName = ''Aave V3'', vaultName = ''USDC Vault'',
                    vaultVersion = None, isAudited = True \<rparr> \<rparr>"

definition compound_gap :: YieldOpportunity where
  "compound_gap =
     \<lparr> oid = ''Base-compound-v3-USDC-pool-compound'', protocol = ''Compound V3'',
       protocolSlug = ''compound-v3'', chainId = 8453, chainName = ''Base'', token = ''USDC'',
       tokenAddress = ZERO_ADDRESS, vaultAddress = ''pool-compound'', apy = NaN,
       tvlUsd = 90000000, riskLevel = Low, depositFunction = ''deposit'',
       depositParams = erc4626_depositParams, withdrawalFunction = ''withdraw'',
       withdrawalParams = erc4626_withdrawalParams,
       metadata = \<lparr> protocolName = ''Compound V3'', vaultName = ''USDC Vault'',
                    vaultVersion = None, isAudited = True \<rparr> \<rparr>"

definition morpho_high :: YieldOpportunity where
  "morpho_high =
     \<lparr> oid = ''Base-morpho-USDC-pool-morpho'', protocol = ''Morpho'',
       protocolSlug = ''morpho'', chainId = 8453, chainName = ''Base'', token = ''USDC'',
       tokenAddress = ZERO_ADDRESS, vaultAddress = ''pool-morpho'', apy = Num (5 / 100),
       tvlUsd = 120000000, riskLevel = Low, depositFunction = ''deposit'',
       depositParams = erc4626_depositParams, withdrawalFunction = ''withdraw'',
       withdrawalParams = erc4626_withdrawalParams,
       metadata = \<lparr> protocolName = ''Morpho'', vaultName = ''USDC Vault'',
                    vaultVersion = None, isAudited = True \<rparr> \<rparr>"

text \<open>The service after it has cached that answer at time 0, and a query with no filter.\<close>

definition gap_service :: YieldService where
  "gap_service =
     new_YieldService
       \<lparr>cache := [cacheKey \<mapsto> \<lparr>data = [aave_low, compound_gap, morpho_high], timestamp = 0\<rparr>]\<rparr>"

definition no_filter :: YieldQueryParams where
  "no_filter =
     \<lparr> q_chainId = None, q_token = None, q_minApy = None, q_maxApy = None,
       q_minTvlUsd = None, q_riskTolerance = None, q_whitelistedProtocols = None,
       q_blacklistedProtocols = None, q_limit = None \<rparr>"

text \<open>The opportunities the adapters make of the sample data, and the requests they issue.\<close>

definition aave_opp :: YieldOpportunity where
  "aave_opp =
     \<lparr> oid = ''Base-aave-v3-USDC-pool-aave'', protocol = ''Aave V3'',
       protocolSlug = ''aave-v3'', chainId = 8453, chainName = ''Base'', token = ''USDC'',
       tokenAddress = ZERO_ADDRESS, vaultAddress = ''pool-aave'', apy = Num (5.2 / 100),
       tvlUsd = 250000000, riskLevel = Low, depositFunction = ''deposit'',
       depositParams = erc4626_depositParams, withdrawalFunction = ''withdraw'',
       withdrawalParams = erc4626_withdrawalParams,
       metadata = \<lparr> protocolName = ''Aave V3'', vaultName = ''USDC Vault'',
                    vaultVersion = None, isAudited = True \<rparr> \<rparr>"

definition pendle_opp :: YieldOpportunity where
  "pendle_opp =
     \<lparr> oid = ''Base-Pendle-USDC-pool-pendle'', protocol = ''Pendle'',
       protocolSlug = ''pendle'', chainId = 8453, chainName = ''Base'', token = ''USDC'',
       tokenAddress = ZERO_ADDRESS, vaultAddress = ''pool-pendle'', apy = Num (12 / 100),
       tvlUsd = 8000000, riskLevel = High, depositFunction = ''deposit'',
       depositParams = erc4626_depositParams, withdrawalFunction = ''withdraw'',
       withdrawalParams = erc4626_withdrawalParams,
       metadata = \<lparr> protocolName = ''Pendle'', vaultName = ''USDC Vault'',
                    vaultVersion = None, isAudited = True \<rparr> \<rparr>"

definition yearn_opp :: YieldOpportunity where
  "yearn_opp =
     \<lparr> oid = ''yearn-8453-vault-yearn'', protocol = ''Yearn V3'',
       protocolSlug = ''yearn-v3'', chainId = 8453, chainName = ''base'', token = ''USDC'',
       tokenAddress = ZERO_ADDRESS, vaultAddress = ''vault-yearn'', apy = Num 0.061,
       tvlUsd = 40000000, riskLevel = Medium, depositFunction = ''deposit'',
       depositParams = erc4626_depositParams, withdrawalFunction = ''withdraw'',
       withdrawalParams = erc4626_withdrawalParams,
       metadata = \<lparr> protocolName = ''Yearn V3'', vaultName = ''USDC yVault'',
                    vaultVersion = Some ''3.0.2'', isAudited = True \<rparr> \<rparr>"

definition sample_fetches :: "effect list" where
  "sample_fetches =
     [Fetch ''https://yields.llama.fi/pools'',
      Fetch ''https://api.yearn.fi/v1/chains/1/vaults/all'',
      Fetch ''https://api.yearn.fi/v1/chains/10/vaults/all'',
      Fetch ''https://api.yearn.fi/v1/chains/137/vaults/all'',
      Fetch ''https://api.yearn.fi/v1/chains/42161/vaults/all'',
      Fetch ''https://api.yearn.fi/v1/chains/8453/vaults/all'']"

text \<open>
  A cache scenario: the cache is filled at time 0, read again after four minutes and
  once more after six minutes.
\<close>

definition filled_service :: YieldService where
  "filled_service = fst (snd (fetchAllYields new_YieldService sample_network 0 0))"

definition reread_service :: YieldService where
  "reread_service = fst (snd (fetchAllYields filled_service sample_network 240000 240000))"

text \<open>The intent composed for the Yearn vault, and the state that is ready to execute it.\<close>

definition sample_intent :: ComposedIntent where
  "sample_intent = composeIntentWithDeposit sample_request yearn_opp"

definition ready_state :: IntentState where
  "ready_state =
     \<lparr> step = Ready, route = Some sample_route, targetYield = Some yearn_opp,
       composedIntent = Some sample_intent, execution = None, error = None \<rparr>"

text \<open>Preferences that blacklist the protocol of the Yearn vault.\<close>

definition blacklisting_prefs :: UserPreferences where
  "blacklisting_prefs = DEFAULT_PREFERENCES\<lparr>blacklistedProtocols := [JString ''yearn-v3'']\<rparr>"

text \<open>A query for the two best USDC opportunities on Base.\<close>

definition sample_params :: YieldQueryParams where
  "sample_params =
     \<lparr> q_chainId = Some 8453, q_token = Some ''usdc'', q_minApy = Some 0.05,
       q_maxApy = None, q_minTvlUsd = Some 1000000, q_riskTolerance = Some Aggressive,
       q_whitelistedProtocols = None, q_blacklistedProtocols = None, q_limit = Some 2 \<rparr>"

text \<open>Query parameters that list one protocol both as allowed and as excluded.\<close>

definition conflicting_params :: YieldQueryParams where
  "conflicting_params =
     \<lparr> q_chainId = None, q_token = None, q_minApy = None, q_maxApy = None,
       q_minTvlUsd = None, q_riskTolerance = None,
       q_whitelistedProtocols = Some [''aave-v3'', ''pendle''],
       q_blacklistedProtocols = Some [''Pendle''], q_limit = None \<rparr>"



text \<open>
  A naming client in which \<open>bob.eth\<close> follows \<open>alice.eth\<close>, who in turn names
  \<open>carol.eth\<close>.
\<close>

definition sample_client :: EnsClient where
  "sample_client =
     \<lparr> getEnsAddress =
         (\<lambda>n. if n = ''bob.eth'' then Inr (Some ''0xB0B0000000000000000000000000000000000000'')
               else if n = ''alice.eth''
               then Inr (Some ''0xA11CE00000000000000000000000000000000000'')
               else Inr None),
       getEnsText =
         (\<lambda>n k. if n = ''bob.eth'' \<and> k = ''com.yieldintent.strategyFollow''
                 then Inr (Some ''alice.eth'')
                 else if n = ''bob.eth'' \<and> k = ''com.yieldintent.riskTolerance''
                 then Inr (Some ''aggressive'')
                 else if n = ''alice.eth'' \<and> k = ''com.yieldintent.riskTolerance''
                 then Inr (Some ''conservative'')
                 else if n = ''alice.eth'' \<and> k = ''com.yieldintent.strategyFollow''
                 then Inr (Some ''carol.eth'')
                 else if n = ''carol.eth'' \<and> k = ''com.yieldintent.riskTolerance''
                 then Inr (Some ''aggressive'')
                 else Inr None),
       getEnsAvatar = (\<lambda>n. Inr None) \<rparr>"

section \<open>Properties of the aggregator\<close>

lemma lowercase_slugs_Nil: "lowercase_slugs []"
  by (simp add: lowercase_slugs_def)

lemma toLowerCase_char_idem: "toLowerCase_char (toLowerCase_char c) = toLowerCase_char c"
  by (auto simp: toLowerCase_char_def Let_def)

lemma toLowerCase_idem: "toLowerCase (toLowerCase s) = toLowerCase s"
  by (simp add: toLowerCase_def toLowerCase_char_idem)

lemma set_insort_by: "set (insort_by cmp x ys) = insert x (set ys)"
  by (induction ys) auto

lemma set_array_sort: "set (array_sort cmp xs) = set xs"
  by (induction xs) (auto simp: array_sort_def set_insort_by)

text \<open>
  On opportunities whose APYs are numbers the comparator of \<open>fetchAllYields\<close> is the
  order of the APYs, and the sort delivers a descending list.
\<close>

lemma num_ge_trans: "num_ge a b \<Longrightarrow> num_ge b c \<Longrightarrow> num_ge a c"
  by (cases a; cases b; cases c) auto

lemma num_ge_total: "a \<noteq> NaN \<Longrightarrow> b \<noteq> NaN \<Longrightarrow> \<not> num_ge a b \<Longrightarrow> num_ge b a"
  by (cases a; cases b) auto

lemma by_apy_desc_numeric:
  assumes "apy a \<noteq> NaN" and "apy b \<noteq> NaN"
  shows "(SortCompare (by_apy_desc a b) \<le> 0) = num_ge (apy a) (apy b)"
  using assms by (cases "apy a"; cases "apy b") (auto simp: by_apy_desc_def)

lemma numeric_apys_set: "numeric_apys ys = (\<forall>y \<in> set ys. apy y \<noteq> NaN)"
  by (simp add: numeric_apys_def list_all_iff)

lemma apy_descending_insort:
  assumes "apy_descending ys" and "apy x \<noteq> NaN" and "numeric_apys ys"
  shows "apy_descending (insort_by by_apy_desc x ys)"
  using assms
proof (induction ys)
  case Nil
  then show ?case
    by (simp add: apy_descending_def)
next
  case (Cons y ys)
  from Cons.prems have y: "apy y \<noteq> NaN" and rest: "numeric_apys ys"
    and sorted: "apy_descending ys" and above: "\<forall>z \<in> set ys. num_ge (apy y) (apy z)"
    by (simp_all add: numeric_apys_set apy_descending_def)
  show ?case
  proof (cases "SortCompare (by_apy_desc x y) \<le> 0")
    case True
    with Cons.prems(2) y have xy: "num_ge (apy x) (apy y)"
      by (simp add: by_apy_desc_numeric)
    with above have "\<forall>z \<in> set ys. num_ge (apy x) (apy z)"
      using num_ge_trans by blast
    with True xy Cons.prems(1) show ?thesis
      by (simp add: apy_descending_def)
  next
    case False
    with Cons.prems(2) y have "\<not> num_ge (apy x) (apy y)"
      by (simp add: by_apy_desc_numeric)
    with Cons.prems(2) y have yx: "num_ge (apy y) (apy x)"
      using num_ge_total by blast
    from Cons.IH [OF sorted Cons.prems(2) rest]
    have "apy_descending (insort_by by_apy_desc x ys)" .
    with False yx above show ?thesis
      by (simp add: apy_descending_def set_insort_by)
  qed
qed

lemma apy_descending_array_sort:
  "numeric_apys xs \<Longrightarrow> apy_descending (array_sort by_apy_desc xs)"
proof (induction xs)
  case Nil
  show ?case by (simp add: array_sort_def apy_descending_def)
next
  case (Cons x xs)
  then have "apy_descending (array_sort by_apy_desc xs)" and "apy x \<noteq> NaN"
    and "numeric_apys (array_sort by_apy_desc xs)"
    by (simp_all add: numeric_apys_set set_array_sort)
  then have "apy_descending (insort_by by_apy_desc x (array_sort by_apy_desc xs))"
    by (rule apy_descending_insort)
  then show ?case
    by (simp add: array_sort_def)
qed

text \<open>
  A list of two or more entries, one of them with the APY \<open>NaN\<close>, is not sorted by
  APY in any order of its entries.
\<close>

lemma num_ge_NaN: "\<not> num_ge a NaN" "\<not> num_ge NaN b"
  by (cases a) simp_all

lemma not_descending_with_NaN:
  assumes "y \<in> set ys" and "apy y = NaN" and "2 \<le> length ys"
  shows "\<not> apy_descending ys"
proof
  assume "apy_descending ys"
  then have ordered: "\<And>i j. i < j \<Longrightarrow> j < length ys \<Longrightarrow> num_ge (apy (ys ! i)) (apy (ys ! j))"
    by (simp add: apy_descending_def sorted_wrt_iff_nth_less)
  from assms(1) obtain i where i: "i < length ys" "ys ! i = y"
    by (auto simp: in_set_conv_nth)
  show False
  proof (cases "i = 0")
    case True
    with i assms(3) ordered [of 0 1] assms(2) show False
      by (simp add: num_ge_NaN)
  next
    case False
    with i ordered [of 0 i] assms(2) show False
      by (simp add: num_ge_NaN)
  qed
qed

text \<open>
  An APY that is not a number comes from a DefiLlama pool without a numeric \<open>apy\<close>;
  the Yearn adapter guards its value with \<open>|| 0\<close>.
\<close>

lemma llama_opportunity_apy:
  assumes "llama_opportunity source pool = Some y"
  shows "apy y = num_div (ToNumber (lp_apy pool)) 100"
  using assms
  by (auto simp: llama_opportunity_def Let_def split: option.splits prod.splits if_splits)

lemma llama_opportunity_NaN:
  assumes "llama_opportunity source pool = Some y"
  shows "apy y = NaN \<longleftrightarrow> lp_apy pool = FieldUndefined"
  unfolding llama_opportunity_apy [OF assms] by (cases "lp_apy pool") simp_all

lemma yearn_opportunity_numeric:
  assumes "yearn_opportunity cid vault = Some y"
  shows "apy y \<noteq> NaN"
  using assms by (auto simp: yearn_opportunity_def split: if_splits)

lemma llama_opportunity_slug_eq:
  assumes "llama_opportunity source pool = Some y"
  shows "protocolSlug y = (case lp_project pool of None \<Rightarrow> [] | Some p \<Rightarrow> toLowerCase p)"
proof -
  define slug where "slug = (case lp_project pool of None \<Rightarrow> [] | Some p \<Rightarrow> toLowerCase p)"
  show ?thesis
  proof (cases "PROTOCOL_METADATA slug")
    case None
    with assms show ?thesis
      by (simp add: llama_opportunity_def slug_def [symmetric] Let_def)
  next
    case (Some md)
    obtain mname mrisk where md: "md = (mname, mrisk)"
      by (cases md)
    show ?thesis
    proof (cases "find (\<lambda>(cid, nm). Some nm = map_option toLowerCase (lp_chain pool))
                    CHAIN_ID_TO_NAME")
      case None
      with assms Some md show ?thesis
        by (simp add: llama_opportunity_def slug_def [symmetric] Let_def)
    next
      case (Some entry)
      obtain cid nm where entry: "entry = (cid, nm)"
        by (cases entry)
      from assms \<open>PROTOCOL_METADATA slug = Some md\<close> md Some entry
      have "protocolSlug y = slug"
        by (cases "cid \<in> set (src_chains source)")
           (auto simp: llama_opportunity_def slug_def [symmetric] Let_def)
      then show ?thesis
        by (simp add: slug_def)
    qed
  qed
qed

lemma llama_opportunity_slug:
  assumes "llama_opportunity source pool = Some y"
  shows "toLowerCase (protocolSlug y) = protocolSlug y"
proof (cases "lp_project pool")
  case None
  with llama_opportunity_slug_eq [OF assms] show ?thesis
    by (simp add: toLowerCase_def)
next
  case (Some p)
  with llama_opportunity_slug_eq [OF assms] show ?thesis
    by (simp add: toLowerCase_idem)
qed

lemma lower_yearn: "toLowerCase ''yearn-v3'' = ''yearn-v3''"
  by (simp add: toLowerCase_def toLowerCase_char_def)

lemma yearn_opportunity_slug:
  assumes "yearn_opportunity cid vault = Some y"
  shows "toLowerCase (protocolSlug y) = protocolSlug y"
proof (cases "yv_type vault \<noteq> ''v3'' \<or> yv_kind vault \<noteq> ''Vault''")
  case True
  with assms show ?thesis
    by (simp add: yearn_opportunity_def)
next
  case False
  with assms have "protocolSlug y = ''yearn-v3''"
    by (auto simp: yearn_opportunity_def)
  then show ?thesis
    by (simp add: lower_yearn)
qed

lemma map_filter_SomeD:
  assumes "y \<in> set (List.map_filter f xs)"
  shows "\<exists>x. f x = Some y"
proof -
  from assms obtain x where "f x \<noteq> None" and "y = the (f x)"
    unfolding List.map_filter_def by auto
  then show ?thesis
    by (cases "f x") auto
qed

lemma lowercase_slugs_map_filter:
  assumes "\<And>x y. f x = Some y \<Longrightarrow> toLowerCase (protocolSlug y) = protocolSlug y"
  shows "lowercase_slugs (List.map_filter f xs)"
proof -
  have "\<forall>y \<in> set (List.map_filter f xs). toLowerCase (protocolSlug y) = protocolSlug y"
  proof
    fix y
    assume "y \<in> set (List.map_filter f xs)"
    then obtain x where "f x = Some y"
      using map_filter_SomeD by fastforce
    then show "toLowerCase (protocolSlug y) = protocolSlug y"
      by (rule assms)
  qed
  then show ?thesis
    by (simp add: lowercase_slugs_def list_all_iff)
qed

lemma lowercase_slugs_append:
  "lowercase_slugs (xs @ ys) \<longleftrightarrow> lowercase_slugs xs \<and> lowercase_slugs ys"
  by (simp add: lowercase_slugs_def)

lemma lowercase_slugs_concat:
  "(\<And>xs. xs \<in> set xss \<Longrightarrow> lowercase_slugs xs) \<Longrightarrow> lowercase_slugs (concat xss)"
  by (induction xss) (auto simp: lowercase_slugs_def)

lemma lowercase_slugs_set:
  "set xs \<subseteq> set ys \<Longrightarrow> lowercase_slugs ys \<Longrightarrow> lowercase_slugs xs"
  by (auto simp: lowercase_slugs_def list_all_iff)

lemma llama_attempt_slugs:
  assumes "llama_attempt net source n = (Inr ys, fx)"
  shows "lowercase_slugs ys"
proof -
  have mf: "\<And>ps. lowercase_slugs (List.map_filter (llama_opportunity source) ps)"
    by (rule lowercase_slugs_map_filter) (rule llama_opportunity_slug)
  show ?thesis
  proof (cases "llama_fetch net (base_url source @ ''/pools'') n")
    case (FetchThrows e)
    with assms show ?thesis
      by (simp add: llama_attempt_def Let_def)
  next
    case (Response ok st body)
    with assms mf show ?thesis
      by (cases body; cases ok) (auto simp: llama_attempt_def Let_def)
  qed
qed

lemma withRetry_loop_Inr:
  "withRetry_loop fn maxRetries delayMs backoff lastError attempt = (Inr v, fx)
   \<Longrightarrow> \<exists>n fx'. fn n = (Inr v, fx')"
proof (induction fn maxRetries delayMs backoff lastError attempt arbitrary: fx
       rule: withRetry_loop.induct)
  case (1 fn maxRetries delayMs backoff lastError attempt)
  show ?case
  proof (cases "fn attempt")
    case (Pair r fx0)
    show ?thesis
    proof (cases r)
      case (Inr w)
      with Pair "1.prems" show ?thesis
        by (subst (asm) withRetry_loop.simps) (auto split: if_splits)
    next
      case (Inl e)
      with Pair "1.prems" "1.IH" show ?thesis
        by (subst (asm) withRetry_loop.simps) (auto split: if_splits prod.splits)
    qed
  qed
qed

lemma fetchDefiLlamaYields_slugs:
  assumes "fetchDefiLlamaYields svc net = (Inr ys, fx)"
  shows "lowercase_slugs ys"
proof (cases "find (\<lambda>s. src_name s = ''defillama'') (sources svc)")
  case None
  with assms show ?thesis by (simp add: fetchDefiLlamaYields_def lowercase_slugs_def)
next
  case (Some source)
  with assms have "withRetry_loop (llama_attempt net source) 2 1000 2 NonError 0 = (Inr ys, fx)"
    by (simp add: fetchDefiLlamaYields_def withRetry_def)
  from withRetry_loop_Inr [OF this]
  obtain n fx' where "llama_attempt net source n = (Inr ys, fx')"
    by blast
  then show ?thesis by (rule llama_attempt_slugs)
qed

lemma yearn_chain_slugs: "lowercase_slugs (fst (yearn_chain net source cid))"
proof -
  have mf: "\<And>vs. lowercase_slugs (List.map_filter (yearn_opportunity cid) vs)"
    by (rule lowercase_slugs_map_filter) (rule yearn_opportunity_slug)
  show ?thesis
  proof (cases "yearn_fetch net
                  (base_url source @ ''/'' @ string_of_nat (nat cid) @ ''/vaults/all'')")
    case (FetchThrows e)
    then show ?thesis
      by (simp add: yearn_chain_def Let_def lowercase_slugs_Nil)
  next
    case (Response ok st body)
    then show ?thesis
      by (cases body; cases ok) (simp_all add: yearn_chain_def Let_def lowercase_slugs_Nil mf)
  qed
qed

lemma fetchYearnYields_slugs: "lowercase_slugs (fst (fetchYearnYields svc net))"
proof (cases "find (\<lambda>s. src_name s = ''yearn'') (sources svc)")
  case None
  then show ?thesis by (simp add: fetchYearnYields_def lowercase_slugs_Nil)
next
  case (Some source)
  have "lowercase_slugs (concat (map fst (map (yearn_chain net source) (src_chains source))))"
    by (rule lowercase_slugs_concat) (auto simp: yearn_chain_slugs)
  with Some show ?thesis by (simp add: fetchYearnYields_def Let_def)
qed

lemma fetchAllYields_hit:
  assumes "cache svc cacheKey = Some e" and "now_check - timestamp e < CACHE_TTL"
  shows "fetchAllYields svc net now_check now_store = (Inr (data e), svc, [])"
  using assms by (simp add: fetchAllYields_def)

lemma fetchAllYields_miss:
  assumes "cache svc cacheKey = None
           \<or> (\<exists>e. cache svc cacheKey = Some e \<and> \<not> now_check - timestamp e < CACHE_TTL)"
  shows "fetchAllYields svc net now_check now_store =
           (case fst (fetchDefiLlamaYields svc net) of
              Inl err \<Rightarrow>
                (Inl err, svc,
                 snd (fetchDefiLlamaYields svc net) @ snd (fetchYearnYields svc net))
            | Inr ds \<Rightarrow>
                (Inr (array_sort by_apy_desc (ds @ fst (fetchYearnYields svc net))),
                 svc\<lparr>cache := (cache svc)
                        (cacheKey \<mapsto>
                           \<lparr>data = array_sort by_apy_desc (ds @ fst (fetchYearnYields svc net)),
                            timestamp = now_store\<rparr>)\<rparr>,
                 snd (fetchDefiLlamaYields svc net) @ snd (fetchYearnYields svc net)))"
  using assms
  by (auto simp: fetchAllYields_def Let_def split: prod.splits sum.splits)

lemma fetchAllYields_cases [case_names hit failed stored]:
  obtains
    (hit) e where "cache svc cacheKey = Some e" and "now_check - timestamp e < CACHE_TTL"
      and "fetchAllYields svc net now_check now_store = (Inr (data e), svc, [])"
  | (failed) err where
      "cache svc cacheKey = None
       \<or> (\<exists>e. cache svc cacheKey = Some e \<and> \<not> now_check - timestamp e < CACHE_TTL)"
      and "fst (fetchDefiLlamaYields svc net) = Inl err"
      and "fetchAllYields svc net now_check now_store =
             (Inl err, svc,
              snd (fetchDefiLlamaYields svc net) @ snd (fetchYearnYields svc net))"
  | (stored) ds where
      "cache svc cacheKey = None
       \<or> (\<exists>e. cache svc cacheKey = Some e \<and> \<not> now_check - timestamp e < CACHE_TTL)"
      and "fst (fetchDefiLlamaYields svc net) = Inr ds"
      and "fetchAllYields svc net now_check now_store =
             (Inr (array_sort by_apy_desc (ds @ fst (fetchYearnYields svc net))),
              svc\<lparr>cache := (cache svc)
                     (cacheKey \<mapsto>
                        \<lparr>data = array_sort by_apy_desc (ds @ fst (fetchYearnYields svc net)),
                         timestamp = now_store\<rparr>)\<rparr>,
              snd (fetchDefiLlamaYields svc net) @ snd (fetchYearnYields svc net))"
proof (cases "cache svc cacheKey")
  case None
  then have miss: "cache svc cacheKey = None
      \<or> (\<exists>e. cache svc cacheKey = Some e \<and> \<not> now_check - timestamp e < CACHE_TTL)"
    by simp
  show ?thesis
  proof (cases "fst (fetchDefiLlamaYields svc net)")
    case (Inl err)
    with miss failed [of err] fetchAllYields_miss [OF miss, of net now_store]
    show ?thesis by simp
  next
    case (Inr ds)
    with miss stored [of ds] fetchAllYields_miss [OF miss, of net now_store]
    show ?thesis by simp
  qed
next
  case (Some e)
  show ?thesis
  proof (cases "now_check - timestamp e < CACHE_TTL")
    case True
    with Some hit [of e] fetchAllYields_hit [of svc e now_check net now_store]
    show ?thesis by simp
  next
    case False
    with Some have miss: "cache svc cacheKey = None
        \<or> (\<exists>e. cache svc cacheKey = Some e \<and> \<not> now_check - timestamp e < CACHE_TTL)"
      by simp
    show ?thesis
    proof (cases "fst (fetchDefiLlamaYields svc net)")
      case (Inl err)
      with miss failed [of err] fetchAllYields_miss [OF miss, of net now_store]
      show ?thesis by simp
    next
      case (Inr ds)
      with miss stored [of ds] fetchAllYields_miss [OF miss, of net now_store]
      show ?thesis by simp
    qed
  qed
qed

lemma lowercase_slugs_array_sort:
  "lowercase_slugs (array_sort cmp xs) = lowercase_slugs xs"
  by (simp add: lowercase_slugs_def list_all_iff set_array_sort)

lemma fresh_superset_ok:
  assumes "fst (fetchDefiLlamaYields svc net) = Inr ds"
  shows "lowercase_slugs (array_sort by_apy_desc (ds @ fst (fetchYearnYields svc net)))"
proof -
  obtain fx where "fetchDefiLlamaYields svc net = (Inr ds, fx)"
    using assms by (cases "fetchDefiLlamaYields svc net") simp
  then have "lowercase_slugs ds"
    by (rule fetchDefiLlamaYields_slugs)
  then show ?thesis
    by (simp add: lowercase_slugs_array_sort lowercase_slugs_append fetchYearnYields_slugs)
qed

lemma fresh_superset_sorted:
  assumes "numeric_apys (array_sort by_apy_desc xs)"
  shows "apy_descending (array_sort by_apy_desc xs)"
proof -
  from assms have "numeric_apys xs"
    by (simp add: numeric_apys_set set_array_sort)
  then show ?thesis
    by (rule apy_descending_array_sort)
qed

lemma cache_ok_new: "cache_ok new_YieldService"
  by (simp add: cache_ok_def new_YieldService_def)

lemma cache_ok_clearCache: "cache_ok (clearCache svc)"
  by (simp add: cache_ok_def clearCache_def)

lemma cache_ok_fetchAllYields:
  assumes "cache_ok svc" and "fetchAllYields svc net now_check now_store = (res, svc', fx)"
  shows "cache_ok svc'"
proof (cases rule: fetchAllYields_cases
    [where svc = svc and net = net and now_check = now_check and now_store = now_store])
  case (hit e)
  with assms show ?thesis by simp
next
  case (failed err)
  with assms show ?thesis by simp
next
  case (stored ds)
  define entry where
    "entry = \<lparr>data = array_sort by_apy_desc (ds @ fst (fetchYearnYields svc net)),
              timestamp = now_store\<rparr>"
  from assms(2) stored(3) have eq: "svc' = svc\<lparr>cache := (cache svc)(cacheKey \<mapsto> entry)\<rparr>"
    by (simp add: entry_def)
  from assms(1) have "dom (cache svc) \<subseteq> {cacheKey}"
    by (simp add: cache_ok_def)
  then have "dom (cache svc') \<subseteq> {cacheKey}"
    unfolding eq by simp
  moreover have "cache svc' cacheKey = Some entry"
    unfolding eq by simp
  ultimately show ?thesis
    using fresh_superset_ok [OF stored(2)] by (simp add: cache_ok_def entry_def)
qed

lemma reachable_cache_ok: "reachable svc \<Longrightarrow> cache_ok svc"
  by (induction rule: reachable.induct)
     (auto intro: cache_ok_new cache_ok_clearCache cache_ok_fetchAllYields)

lemma superset_ok:
  assumes "cache_ok svc" and "fetchAllYields svc net now_check now_store = (Inr superset, svc', fx)"
  shows "lowercase_slugs superset"
proof (cases rule: fetchAllYields_cases
    [where svc = svc and net = net and now_check = now_check and now_store = now_store])
  case (hit e)
  with assms show ?thesis by (auto simp: cache_ok_def)
next
  case (failed err)
  with assms show ?thesis by simp
next
  case (stored ds)
  with assms fresh_superset_ok [OF stored(2)] show ?thesis
    by auto
qed

text \<open>The same for the order of a list whose APYs are all numbers.\<close>

lemma cache_sorted_new: "cache_sorted new_YieldService"
  by (simp add: cache_sorted_def new_YieldService_def)

lemma cache_sorted_clearCache: "cache_sorted (clearCache svc)"
  by (simp add: cache_sorted_def clearCache_def)

lemma cache_sorted_fetchAllYields:
  assumes "cache_sorted svc" and "fetchAllYields svc net now_check now_store = (res, svc', fx)"
  shows "cache_sorted svc'"
proof (cases rule: fetchAllYields_cases
    [where svc = svc and net = net and now_check = now_check and now_store = now_store])
  case (hit e)
  with assms show ?thesis by simp
next
  case (failed err)
  with assms show ?thesis by simp
next
  case (stored ds)
  define entry where
    "entry = \<lparr>data = array_sort by_apy_desc (ds @ fst (fetchYearnYields svc net)),
              timestamp = now_store\<rparr>"
  from assms(2) stored(3) have eq: "svc' = svc\<lparr>cache := (cache svc)(cacheKey \<mapsto> entry)\<rparr>"
    by (simp add: entry_def)
  have "cache svc' cacheKey = Some entry"
    unfolding eq by simp
  then show ?thesis
    by (simp add: cache_sorted_def entry_def fresh_superset_sorted)
qed

lemma reachable_cache_sorted: "reachable svc \<Longrightarrow> cache_sorted svc"
  by (induction rule: reachable.induct)
     (auto intro: cache_sorted_new cache_sorted_clearCache cache_sorted_fetchAllYields)

lemma superset_sorted:
  assumes "cache_sorted svc"
    and "fetchAllYields svc net now_check now_store = (Inr superset, svc', fx)"
    and "numeric_apys superset"
  shows "apy_descending superset"
proof (cases rule: fetchAllYields_cases
    [where svc = svc and net = net and now_check = now_check and now_store = now_store])
  case (hit e)
  with assms show ?thesis by (auto simp: cache_sorted_def)
next
  case (failed err)
  with assms show ?thesis by simp
next
  case (stored ds)
  with assms fresh_superset_sorted show ?thesis
    by auto
qed

subsection \<open>The filters keep the order\<close>

lemma subseq_take: "subseq (take n ys) ys"
  by (simp add: prefix_imp_subseq take_is_prefix)

lemma subseq_apply_limit: "subseq (apply_limit params ys) ys"
  by (simp add: apply_limit_def subseq_take split: option.splits)

lemma subseq_filter_yields: "subseq (filter_yields params ys) ys"
proof -
  have 1: "subseq (filter_chainId params ys) ys"
    by (simp add: filter_chainId_def split: option.splits)
  have 2: "\<And>xs. subseq (filter_token params xs) xs"
    by (simp add: filter_token_def split: option.splits)
  have 3: "\<And>xs. subseq (filter_minApy params xs) xs"
    by (simp add: filter_minApy_def split: option.splits)
  have 4: "\<And>xs. subseq (filter_maxApy params xs) xs"
    by (simp add: filter_maxApy_def split: option.splits)
  have 5: "\<And>xs. subseq (filter_minTvl params xs) xs"
    by (simp add: filter_minTvl_def split: option.splits)
  have 6: "\<And>xs. subseq (filter_risk params xs) xs"
    by (simp add: filter_risk_def split: option.splits)
  have 7: "\<And>xs. subseq (filter_whitelist params xs) xs"
    by (simp add: filter_whitelist_def split: option.splits)
  have 8: "\<And>xs. subseq (filter_blacklist params xs) xs"
    by (simp add: filter_blacklist_def split: option.splits)
  note tr = subseq_order.order_trans
  show ?thesis
    unfolding filter_yields_def
    by (rule tr [OF subseq_apply_limit], rule tr [OF 8], rule tr [OF 7], rule tr [OF 6],
        rule tr [OF 5], rule tr [OF 4], rule tr [OF 3], rule tr [OF 2], rule 1)
qed

lemma subseq_set: "subseq xs ys \<Longrightarrow> set xs \<subseteq> set ys"
  by (induction rule: list_emb.induct) auto

lemma apy_descending_subseq:
  "subseq xs ys \<Longrightarrow> apy_descending ys \<Longrightarrow> apy_descending xs"
proof (induction rule: list_emb.induct)
  case (list_emb_Nil ys)
  show ?case by (simp add: apy_descending_def)
next
  case (list_emb_Cons xs ys y)
  then show ?case by (simp add: apy_descending_def)
next
  case (list_emb_Cons2 x y xs ys)
  then have "set xs \<subseteq> set ys"
    using subseq_set by blast
  with list_emb_Cons2 show ?case
    by (auto simp: apy_descending_def)
qed

subsection \<open>The filters commute with any other filter\<close>

lemma filter_chainId_commute: "filter_chainId params (filter P ys) = filter P (filter_chainId params ys)"
  by (auto simp: filter_chainId_def split: option.splits intro: filter_cong)

lemma filter_token_commute: "filter_token params (filter P ys) = filter P (filter_token params ys)"
  by (auto simp: filter_token_def split: option.splits intro: filter_cong)

lemma filter_minApy_commute: "filter_minApy params (filter P ys) = filter P (filter_minApy params ys)"
  by (auto simp: filter_minApy_def split: option.splits intro: filter_cong)

lemma filter_maxApy_commute: "filter_maxApy params (filter P ys) = filter P (filter_maxApy params ys)"
  by (auto simp: filter_maxApy_def split: option.splits intro: filter_cong)

lemma filter_minTvl_commute: "filter_minTvl params (filter P ys) = filter P (filter_minTvl params ys)"
  by (auto simp: filter_minTvl_def split: option.splits intro: filter_cong)

lemma filter_yields_risk:
  assumes "q_riskTolerance params = Some r"
  shows "filter_yields params ys =
           filter_yields (params\<lparr>q_riskTolerance := None\<rparr>)
             (filter (\<lambda>y. riskLevel y \<in> set (allowedRiskLevels r)) ys)"
proof -
  let ?p = "params\<lparr>q_riskTolerance := None\<rparr>"
  have same:
    "filter_chainId ?p = filter_chainId params" "filter_token ?p = filter_token params"
    "filter_minApy ?p = filter_minApy params" "filter_maxApy ?p = filter_maxApy params"
    "filter_minTvl ?p = filter_minTvl params" "filter_whitelist ?p = filter_whitelist params"
    "filter_blacklist ?p = filter_blacklist params" "apply_limit ?p = apply_limit params"
    by (simp_all add: fun_eq_iff filter_chainId_def filter_token_def filter_minApy_def
        filter_maxApy_def filter_minTvl_def filter_whitelist_def filter_blacklist_def
        apply_limit_def)
  have off: "\<And>zs. filter_risk ?p zs = zs"
    by (simp add: filter_risk_def)
  have on: "\<And>zs. filter_risk params zs = filter (\<lambda>y. riskLevel y \<in> set (allowedRiskLevels r)) zs"
    using assms by (simp add: filter_risk_def)
  show ?thesis
    unfolding filter_yields_def same off on
    by (simp only: filter_chainId_commute filter_token_commute filter_minApy_commute
        filter_maxApy_commute filter_minTvl_commute)
qed

lemma filter_yields_only_risk:
  "filter_yields (only_risk r) ys = filter (\<lambda>y. riskLevel y \<in> set (allowedRiskLevels r)) ys"
  by (simp add: filter_yields_def only_risk_def filter_chainId_def filter_token_def
      filter_minApy_def filter_maxApy_def filter_minTvl_def filter_risk_def
      filter_whitelist_def filter_blacklist_def apply_limit_def)

lemma queryYields_eq:
  assumes "fetchAllYields svc net now_check now_store = (Inr superset, svc', fx)"
  shows "queryYields svc net now_check now_store params =
           (Inr (filter_yields params superset), svc', fx)"
  using assms by (simp add: queryYields_def)

lemma queryYields_InrD:
  assumes "queryYields svc net now_check now_store params = (Inr ys, svc', fx)"
  shows "\<exists>superset. fetchAllYields svc net now_check now_store = (Inr superset, svc', fx)
           \<and> ys = filter_yields params superset"
proof (cases "fetchAllYields svc net now_check now_store")
  case (fields res s f)
  with assms show ?thesis
    by (cases res) (auto simp: queryYields_def)
qed

lemma in_filter_yields_blacklist:
  assumes "y \<in> set (filter_yields params ys)" and "q_blacklistedProtocols params = Some bl"
  shows "protocolSlug y \<notin> set (map toLowerCase bl)"
proof -
  let ?rest = "filter_whitelist params (filter_risk params (filter_minTvl params
      (filter_maxApy params (filter_minApy params (filter_token params
      (filter_chainId params ys))))))"
  from assms(1) have "y \<in> set (filter_blacklist params ?rest)"
    using subseq_set [OF subseq_apply_limit] unfolding filter_yields_def by blast
  with assms(2) show ?thesis
    by (cases "bl = []") (auto simp: filter_blacklist_def)
qed

text \<open>
  In every state of the aggregator \<open>queryYields\<close> returns the filtered superset, a
  subsequence of it (every entry is in the superset, in the superset's order); and when
  all APYs of the superset are numbers, both lists are sorted by APY, highest first.
\<close>

lemma queryYields_subsequence_of_superset:
  assumes "fetchAllYields svc net now_check now_store = (Inr superset, svc', fx)"
  shows "queryYields svc net now_check now_store params =
           (Inr (filter_yields params superset), svc', fx)
         \<and> subseq (filter_yields params superset) superset
         \<and> set (filter_yields params superset) \<subseteq> set superset"
  using queryYields_eq [OF assms] subseq_filter_yields subseq_set [OF subseq_filter_yields]
  by simp

lemma numeric_superset_is_sorted:
  assumes "reachable svc"
    and "fetchAllYields svc net now_check now_store = (Inr superset, svc', fx)"
    and "numeric_apys superset"
  shows "apy_descending superset \<and> apy_descending (filter_yields params superset)"
proof -
  have sorted: "apy_descending superset"
    using superset_sorted [OF reachable_cache_sorted [OF assms(1)] assms(2,3)] .
  from subseq_filter_yields sorted have "apy_descending (filter_yields params superset)"
    by (rule apy_descending_subseq)
  with sorted show ?thesis
    by simp
qed

section \<open>Properties of the preference parser\<close>

lemmas parse_stage_defs =
  parse_preferredChains_def parse_risk_def parse_maxSlippage_def parse_action_def
  parse_whitelist_def parse_blacklist_def parse_minLiquidity_def parse_strategyFollow_def
  parse_autoRebalance_def parse_notificationPrefs_def





text \<open>Each block leaves the fields of the other blocks as they are.\<close>

lemma parse_preferredChains_keeps:
  "riskTolerance (parse_preferredChains r p) = riskTolerance p"
  "maxSlippageBps (parse_preferredChains r p) = maxSlippageBps p"
  "defaultAction (parse_preferredChains r p) = defaultAction p"
  "whitelistedProtocols (parse_preferredChains r p) = whitelistedProtocols p"
  "blacklistedProtocols (parse_preferredChains r p) = blacklistedProtocols p"
  "minLiquidityUsd (parse_preferredChains r p) = minLiquidityUsd p"
  "notificationPrefs (parse_preferredChains r p) = notificationPrefs p"
  by (simp_all add: parse_preferredChains_def split: option.splits json.splits)

lemma parse_risk_keeps:
  "preferredChains (parse_risk r p) = preferredChains p"
  "maxSlippageBps (parse_risk r p) = maxSlippageBps p"
  "defaultAction (parse_risk r p) = defaultAction p"
  "blacklistedProtocols (parse_risk r p) = blacklistedProtocols p"
  "minLiquidityUsd (parse_risk r p) = minLiquidityUsd p"
  "notificationPrefs (parse_risk r p) = notificationPrefs p"
  by (simp_all add: parse_risk_def split: option.splits)

lemma parse_maxSlippage_keeps:
  "preferredChains (parse_maxSlippage r p) = preferredChains p"
  "riskTolerance (parse_maxSlippage r p) = riskTolerance p"
  "defaultAction (parse_maxSlippage r p) = defaultAction p"
  "whitelistedProtocols (parse_maxSlippage r p) = whitelistedProtocols p"
  "blacklistedProtocols (parse_maxSlippage r p) = blacklistedProtocols p"
  "minLiquidityUsd (parse_maxSlippage r p) = minLiquidityUsd p"
  "notificationPrefs (parse_maxSlippage r p) = notificationPrefs p"
  by (simp_all add: parse_maxSlippage_def split: option.splits)

lemma parse_action_keeps:
  "preferredChains (parse_action r p) = preferredChains p"
  "riskTolerance (parse_action r p) = riskTolerance p"
  "maxSlippageBps (parse_action r p) = maxSlippageBps p"
  "whitelistedProtocols (parse_action r p) = whitelistedProtocols p"
  "blacklistedProtocols (parse_action r p) = blacklistedProtocols p"
  "minLiquidityUsd (parse_action r p) = minLiquidityUsd p"
  "notificationPrefs (parse_action r p) = notificationPrefs p"
  by (simp_all add: parse_action_def split: option.splits)

lemma parse_whitelist_keeps:
  "preferredChains (parse_whitelist r p) = preferredChains p"
  "riskTolerance (parse_whitelist r p) = riskTolerance p"
  "maxSlippageBps (parse_whitelist r p) = maxSlippageBps p"
  "defaultAction (parse_whitelist r p) = defaultAction p"
  "blacklistedProtocols (parse_whitelist r p) = blacklistedProtocols p"
  "minLiquidityUsd (parse_whitelist r p) = minLiquidityUsd p"
  "notificationPrefs (parse_whitelist r p) = notificationPrefs p"
  by (simp_all add: parse_whitelist_def split: option.splits json.splits)

lemma parse_blacklist_keeps:
  "preferredChains (parse_blacklist r p) = preferredChains p"
  "riskTolerance (parse_blacklist r p) = riskTolerance p"
  "maxSlippageBps (parse_blacklist r p) = maxSlippageBps p"
  "defaultAction (parse_blacklist r p) = defaultAction p"
  "whitelistedProtocols (parse_blacklist r p) = whitelistedProtocols p"
  "minLiquidityUsd (parse_blacklist r p) = minLiquidityUsd p"
  "notificationPrefs (parse_blacklist r p) = notificationPrefs p"
  by (simp_all add: parse_blacklist_def split: option.splits json.splits)

lemma parse_minLiquidity_keeps:
  "preferredChains (parse_minLiquidity r p) = preferredChains p"
  "riskTolerance (parse_minLiquidity r p) = riskTolerance p"
  "maxSlippageBps (parse_minLiquidity r p) = maxSlippageBps p"
  "defaultAction (parse_minLiquidity r p) = defaultAction p"
  "whitelistedProtocols (parse_minLiquidity r p) = whitelistedProtocols p"
  "blacklistedProtocols (parse_minLiquidity r p) = blacklistedProtocols p"
  "notificationPrefs (parse_minLiquidity r p) = notificationPrefs p"
  by (simp_all add: parse_minLiquidity_def split: option.splits)

lemma parse_strategyFollow_keeps:
  "preferredChains (parse_strategyFollow r p) = preferredChains p"
  "riskTolerance (parse_strategyFollow r p) = riskTolerance p"
  "maxSlippageBps (parse_strategyFollow r p) = maxSlippageBps p"
  "defaultAction (parse_strategyFollow r p) = defaultAction p"
  "whitelistedProtocols (parse_strategyFollow r p) = whitelistedProtocols p"
  "blacklistedProtocols (parse_strategyFollow r p) = blacklistedProtocols p"
  "minLiquidityUsd (parse_strategyFollow r p) = minLiquidityUsd p"
  "notificationPrefs (parse_strategyFollow r p) = notificationPrefs p"
  by (simp_all add: parse_strategyFollow_def split: option.splits)

lemma parse_autoRebalance_keeps:
  "preferredChains (parse_autoRebalance r p) = preferredChains p"
  "riskTolerance (parse_autoRebalance r p) = riskTolerance p"
  "maxSlippageBps (parse_autoRebalance r p) = maxSlippageBps p"
  "defaultAction (parse_autoRebalance r p) = defaultAction p"
  "whitelistedProtocols (parse_autoRebalance r p) = whitelistedProtocols p"
  "blacklistedProtocols (parse_autoRebalance r p) = blacklistedProtocols p"
  "minLiquidityUsd (parse_autoRebalance r p) = minLiquidityUsd p"
  "notificationPrefs (parse_autoRebalance r p) = notificationPrefs p"
  "strategyFollow (parse_autoRebalance r p) = strategyFollow p"
  by (simp_all add: parse_autoRebalance_def split: option.splits)

lemma parse_notificationPrefs_keeps:
  "preferredChains (parse_notificationPrefs r p) = preferredChains p"
  "riskTolerance (parse_notificationPrefs r p) = riskTolerance p"
  "maxSlippageBps (parse_notificationPrefs r p) = maxSlippageBps p"
  "defaultAction (parse_notificationPrefs r p) = defaultAction p"
  "whitelistedProtocols (parse_notificationPrefs r p) = whitelistedProtocols p"
  "blacklistedProtocols (parse_notificationPrefs r p) = blacklistedProtocols p"
  "minLiquidityUsd (parse_notificationPrefs r p) = minLiquidityUsd p"
  "strategyFollow (parse_notificationPrefs r p) = strategyFollow p"
  by (simp_all add: parse_notificationPrefs_def split: option.splits)

lemma strategyFollow_keeps:
  "strategyFollow (parse_preferredChains r p) = strategyFollow p"
  "strategyFollow (parse_risk r p) = strategyFollow p"
  "strategyFollow (parse_maxSlippage r p) = strategyFollow p"
  "strategyFollow (parse_action r p) = strategyFollow p"
  "strategyFollow (parse_whitelist r p) = strategyFollow p"
  "strategyFollow (parse_blacklist r p) = strategyFollow p"
  "strategyFollow (parse_minLiquidity r p) = strategyFollow p"
  by (simp_all add: parse_stage_defs split: option.split json.split)

lemmas parse_keeps =
  parse_preferredChains_keeps parse_risk_keeps parse_maxSlippage_keeps parse_action_keeps
  parse_whitelist_keeps parse_blacklist_keeps parse_minLiquidity_keeps
  parse_strategyFollow_keeps parse_autoRebalance_keeps parse_notificationPrefs_keeps

text \<open>Hence each field of the result is decided by its own block.\<close>

lemma parsed_fields:
  "preferredChains (parsePreferences r) = preferredChains (parse_preferredChains r DEFAULT_PREFERENCES)"
  "riskTolerance (parsePreferences r) = riskTolerance (parse_risk r DEFAULT_PREFERENCES)"
  "maxSlippageBps (parsePreferences r) =
     maxSlippageBps (parse_maxSlippage r DEFAULT_PREFERENCES)"
  "defaultAction (parsePreferences r) = defaultAction (parse_action r DEFAULT_PREFERENCES)"
  "whitelistedProtocols (parsePreferences r) =
     whitelistedProtocols (parse_whitelist r (parse_risk r DEFAULT_PREFERENCES))"
  "blacklistedProtocols (parsePreferences r) =
     blacklistedProtocols (parse_blacklist r DEFAULT_PREFERENCES)"
  "minLiquidityUsd (parsePreferences r) =
     minLiquidityUsd (parse_minLiquidity r DEFAULT_PREFERENCES)"
  "notificationPrefs (parsePreferences r) =
     notificationPrefs (parse_notificationPrefs r DEFAULT_PREFERENCES)"
  "strategyFollow (parsePreferences r) = truthy r K_strategyFollow"
proof -
  have own:
    "\<And>p q. preferredChains p = preferredChains q \<Longrightarrow>
       preferredChains (parse_preferredChains r p) = preferredChains (parse_preferredChains r q)"
    "\<And>p q. riskTolerance p = riskTolerance q \<Longrightarrow>
       riskTolerance (parse_risk r p) = riskTolerance (parse_risk r q)"
    "\<And>p q. maxSlippageBps p = maxSlippageBps q \<Longrightarrow>
       maxSlippageBps (parse_maxSlippage r p) = maxSlippageBps (parse_maxSlippage r q)"
    "\<And>p q. defaultAction p = defaultAction q \<Longrightarrow>
       defaultAction (parse_action r p) = defaultAction (parse_action r q)"
    "\<And>p q. whitelistedProtocols p = whitelistedProtocols q \<Longrightarrow>
       whitelistedProtocols (parse_whitelist r p) = whitelistedProtocols (parse_whitelist r q)"
    "\<And>p q. whitelistedProtocols p = whitelistedProtocols q \<Longrightarrow>
       whitelistedProtocols (parse_risk r p) = whitelistedProtocols (parse_risk r q)"
    "\<And>p q. blacklistedProtocols p = blacklistedProtocols q \<Longrightarrow>
       blacklistedProtocols (parse_blacklist r p) = blacklistedProtocols (parse_blacklist r q)"
    "\<And>p q. minLiquidityUsd p = minLiquidityUsd q \<Longrightarrow>
       minLiquidityUsd (parse_minLiquidity r p) = minLiquidityUsd (parse_minLiquidity r q)"
    "\<And>p q. notificationPrefs p = notificationPrefs q \<Longrightarrow>
       notificationPrefs (parse_notificationPrefs r p)
         = notificationPrefs (parse_notificationPrefs r q)"
    by (simp_all add: parse_stage_defs split: option.split json.split)
  show "preferredChains (parsePreferences r) = preferredChains (parse_preferredChains r DEFAULT_PREFERENCES)"
    by (simp add: parsePreferences_def parse_keeps)
  have "riskTolerance (parsePreferences r) =
      riskTolerance (parse_risk r
        (parse_preferredChains r DEFAULT_PREFERENCES))"
    by (simp add: parsePreferences_def parse_keeps)
  also have "\<dots> = riskTolerance (parse_risk r DEFAULT_PREFERENCES)"
    by (rule own(2)) (simp add: parse_keeps)
  finally show "riskTolerance (parsePreferences r) = riskTolerance (parse_risk r DEFAULT_PREFERENCES)" .
  have "maxSlippageBps (parsePreferences r) =
      maxSlippageBps (parse_maxSlippage r
        (parse_risk r (parse_preferredChains r DEFAULT_PREFERENCES)))"
    by (simp add: parsePreferences_def parse_keeps)
  also have "\<dots> = maxSlippageBps (parse_maxSlippage r DEFAULT_PREFERENCES)"
    by (rule own(3)) (simp add: parse_keeps)
  finally show "maxSlippageBps (parsePreferences r) = maxSlippageBps (parse_maxSlippage r DEFAULT_PREFERENCES)" .
  have "defaultAction (parsePreferences r) =
      defaultAction (parse_action r
        (parse_maxSlippage r (parse_risk r (parse_preferredChains r DEFAULT_PREFERENCES))))"
    by (simp add: parsePreferences_def parse_keeps)
  also have "\<dots> = defaultAction (parse_action r DEFAULT_PREFERENCES)"
    by (rule own(4)) (simp add: parse_keeps)
  finally show "defaultAction (parsePreferences r) = defaultAction (parse_action r DEFAULT_PREFERENCES)" .
  have "blacklistedProtocols (parsePreferences r) =
      blacklistedProtocols (parse_blacklist r
        (parse_whitelist r (parse_action r (parse_maxSlippage r (parse_risk r (parse_preferredChains r DEFAULT_PREFERENCES))))))"
    by (simp add: parsePreferences_def parse_keeps)
  also have "\<dots> = blacklistedProtocols (parse_blacklist r DEFAULT_PREFERENCES)"
    by (rule own(7)) (simp add: parse_keeps)
  finally show "blacklistedProtocols (parsePreferences r) = blacklistedProtocols (parse_blacklist r DEFAULT_PREFERENCES)" .
  have "minLiquidityUsd (parsePreferences r) =
      minLiquidityUsd (parse_minLiquidity r
        (parse_blacklist r (parse_whitelist r (parse_action r (parse_maxSlippage r (parse_risk r (parse_preferredChains r DEFAULT_PREFERENCES)))))))"
    by (simp add: parsePreferences_def parse_keeps)
  also have "\<dots> = minLiquidityUsd (parse_minLiquidity r DEFAULT_PREFERENCES)"
    by (rule own(8)) (simp add: parse_keeps)
  finally show "minLiquidityUsd (parsePreferences r) = minLiquidityUsd (parse_minLiquidity r DEFAULT_PREFERENCES)" .
  have "notificationPrefs (parsePreferences r) =
      notificationPrefs (parse_notificationPrefs r
        (parse_autoRebalance r (parse_strategyFollow r (parse_minLiquidity r (parse_blacklist r (parse_whitelist r (parse_action r (parse_maxSlippage r (parse_risk r (parse_preferredChains r DEFAULT_PREFERENCES))))))))))"
    by (simp add: parsePreferences_def parse_keeps)
  also have "\<dots> = notificationPrefs (parse_notificationPrefs r DEFAULT_PREFERENCES)"
    by (rule own(9)) (simp add: parse_keeps)
  finally show "notificationPrefs (parsePreferences r) = notificationPrefs (parse_notificationPrefs r DEFAULT_PREFERENCES)" .
  have "whitelistedProtocols (parsePreferences r) =
      whitelistedProtocols (parse_whitelist r
        (parse_action r (parse_maxSlippage r
          (parse_risk r (parse_preferredChains r DEFAULT_PREFERENCES)))))"
    by (simp add: parsePreferences_def parse_keeps)
  also have "\<dots> = whitelistedProtocols (parse_whitelist r (parse_risk r DEFAULT_PREFERENCES))"
    by (rule own(5), simp add: parse_keeps, rule own(6), simp add: parse_keeps)
  finally show "whitelistedProtocols (parsePreferences r) =
     whitelistedProtocols (parse_whitelist r (parse_risk r DEFAULT_PREFERENCES))" .
  show "strategyFollow (parsePreferences r) = truthy r K_strategyFollow"
    by (simp add: parsePreferences_def parse_keeps strategyFollow_keeps
        parse_strategyFollow_def DEFAULT_PREFERENCES_def split: option.split)
qed

section \<open>The sample data, evaluated\<close>

lemmas string_eval =
  toLowerCase_def toLowerCase_char_def toUpperCase_def toUpperCase_char_def
  char_of_def bit_Suc_0_iff

lemma sources_new: "sources new_YieldService = [llama_source, yearn_source]"
  by (simp add: new_YieldService_def SUPPORTED_YIELD_SOURCES_def llama_source_def
      yearn_source_def)

lemma cache_new: "cache new_YieldService = Map.empty"
  by (simp add: new_YieldService_def)

lemma find_llama:
  "find (\<lambda>s. src_name s = ''defillama'') (sources new_YieldService) = Some llama_source"
  unfolding sources_new by (simp add: llama_source_def)

lemma find_yearn:
  "find (\<lambda>s. src_name s = ''yearn'') (sources new_YieldService) = Some yearn_source"
  unfolding sources_new by (simp add: llama_source_def yearn_source_def)

lemma sample_llama_opportunities:
  "List.map_filter (llama_opportunity llama_source) sample_pools = [aave_opp, pendle_opp]"
  by (simp add: List.map_filter_simps sample_pools_def llama_opportunity_def llama_source_def
      PROTOCOL_METADATA_def CHAIN_ID_TO_NAME_def aave_opp_def pendle_opp_def Let_def
      or_string_def or_number_def template_def string_eval)

lemma llama_url: "base_url llama_source @ ''/pools'' = ''https://yields.llama.fi/pools''"
  by (simp add: base_url_def template_def llama_source_def)

lemma sample_llama_attempt:
  "llama_attempt sample_network llama_source n =
     (Inr [aave_opp, pendle_opp], [Fetch ''https://yields.llama.fi/pools''])"
  unfolding llama_attempt_def llama_url Let_def
  by (simp add: sample_network_def sample_llama_opportunities)

lemma sample_llama:
  "fetchDefiLlamaYields new_YieldService sample_network =
     (Inr [aave_opp, pendle_opp], [Fetch ''https://yields.llama.fi/pools''])"
  by (simp add: fetchDefiLlamaYields_def find_llama withRetry_def
      withRetry_loop.simps [of _ 2 1000 2 NonError 0] sample_llama_attempt)

lemma chain_strings:
  "string_of_nat (Suc 0) = ''1''" "string_of_nat 10 = ''10''" "string_of_nat 137 = ''137''"
  "string_of_nat 42161 = ''42161''" "string_of_nat 8453 = ''8453''"
  by (simp_all add: string_of_nat.simps char_of_def bit_Suc_0_iff)

lemma sample_yearn_opportunity: "yearn_opportunity 8453 sample_vault = Some yearn_opp"
  by (simp add: yearn_opportunity_def sample_vault_def yearn_opp_def chain_strings
      CHAIN_ID_TO_NAME_def or_string_def or_number_def)

lemma sample_yearn_chains:
  "yearn_chain sample_network yearn_source 1 =
     ([], [Fetch ''https://api.yearn.fi/v1/chains/1/vaults/all''])"
  "yearn_chain sample_network yearn_source 10 =
     ([], [Fetch ''https://api.yearn.fi/v1/chains/10/vaults/all''])"
  "yearn_chain sample_network yearn_source 137 =
     ([], [Fetch ''https://api.yearn.fi/v1/chains/137/vaults/all''])"
  "yearn_chain sample_network yearn_source 42161 =
     ([], [Fetch ''https://api.yearn.fi/v1/chains/42161/vaults/all''])"
  "yearn_chain sample_network yearn_source 8453 =
     ([yearn_opp], [Fetch ''https://api.yearn.fi/v1/chains/8453/vaults/all''])"
  by (simp_all add: yearn_chain_def base_url_def template_def yearn_source_def chain_strings
      sample_network_def List.map_filter_simps sample_yearn_opportunity)

lemma sample_yearn:
  "fetchYearnYields new_YieldService sample_network =
     ([yearn_opp],
      [Fetch ''https://api.yearn.fi/v1/chains/1/vaults/all'',
       Fetch ''https://api.yearn.fi/v1/chains/10/vaults/all'',
       Fetch ''https://api.yearn.fi/v1/chains/137/vaults/all'',
       Fetch ''https://api.yearn.fi/v1/chains/42161/vaults/all'',
       Fetch ''https://api.yearn.fi/v1/chains/8453/vaults/all''])"
proof -
  have "src_chains yearn_source = [1, 10, 137, 42161, 8453]"
    by (simp add: yearn_source_def)
  then show ?thesis
    by (simp add: fetchYearnYields_def find_yearn sample_yearn_chains)
qed

lemma sample_sort:
  "array_sort by_apy_desc [aave_opp, pendle_opp, yearn_opp] = [pendle_opp, yearn_opp, aave_opp]"
  by (simp add: array_sort_def by_apy_desc_def aave_opp_def pendle_opp_def yearn_opp_def)

lemma sample_fetch:
  "fetchAllYields new_YieldService sample_network 0 0 =
     (Inr [pendle_opp, yearn_opp, aave_opp],
      new_YieldService
        \<lparr>cache := [cacheKey \<mapsto> \<lparr>data = [pendle_opp, yearn_opp, aave_opp], timestamp = 0\<rparr>]\<rparr>,
      sample_fetches)"
proof -
  have "cache new_YieldService cacheKey = None"
    by (simp add: cache_new)
  then show ?thesis
    by (simp add: fetchAllYields_miss sample_llama sample_yearn sample_sort sample_fetches_def
        cache_new)
qed

lemma filled_service_eq:
  "filled_service =
     new_YieldService
       \<lparr>cache := [cacheKey \<mapsto> \<lparr>data = [pendle_opp, yearn_opp, aave_opp], timestamp = 0\<rparr>]\<rparr>"
  by (simp add: filled_service_def sample_fetch)

lemma reachable_filled: "reachable filled_service"
  unfolding filled_service_eq
  using reachable.fetched [OF reachable.constructed sample_fetch] .

lemma sample_slugs:
  "protocolSlug pendle_opp = ''pendle''" "protocolSlug yearn_opp = ''yearn-v3''"
  "protocolSlug aave_opp = ''aave-v3''"
  by (simp_all add: pendle_opp_def yearn_opp_def aave_opp_def)

lemma sample_risks:
  "riskLevel pendle_opp = High" "riskLevel yearn_opp = Medium" "riskLevel aave_opp = Low"
  by (simp_all add: pendle_opp_def yearn_opp_def aave_opp_def)

lemma sample_apys:
  "apy pendle_opp = Num (12 / 100)" "apy yearn_opp = Num 0.061" "apy aave_opp = Num (5.2 / 100)"
  by (simp_all add: pendle_opp_def yearn_opp_def aave_opp_def)

lemma sample_chain_token_tvl:
  "chainId pendle_opp = 8453" "chainId yearn_opp = 8453" "chainId aave_opp = 8453"
  "token pendle_opp = ''USDC''" "token yearn_opp = ''USDC''" "token aave_opp = ''USDC''"
  "tvlUsd pendle_opp = 8000000" "tvlUsd yearn_opp = 40000000" "tvlUsd aave_opp = 250000000"
  by (simp_all add: pendle_opp_def yearn_opp_def aave_opp_def)

lemma upper_usdc: "toUpperCase ''usdc'' = ''USDC''" "toUpperCase ''USDC'' = ''USDC''"
  by (simp_all add: string_eval)

lemma sample_conflicting:
  "filter_yields conflicting_params [pendle_opp, yearn_opp, aave_opp] = [aave_opp]"
  by (simp add: filter_yields_def conflicting_params_def filter_chainId_def filter_token_def
      filter_minApy_def filter_maxApy_def filter_minTvl_def filter_risk_def
      filter_whitelist_def filter_blacklist_def apply_limit_def sample_slugs string_eval)

lemma sample_two_best:
  "filter_yields sample_params [pendle_opp, yearn_opp, aave_opp] = [pendle_opp, yearn_opp]"
  by (simp add: filter_yields_def sample_params_def filter_chainId_def filter_token_def
      filter_minApy_def filter_maxApy_def filter_minTvl_def filter_risk_def
      filter_whitelist_def filter_blacklist_def apply_limit_def sample_risks sample_apys
      sample_chain_token_tvl upper_usdc allowedRiskLevels_def)

lemma sample_moderate:
  "filter (\<lambda>y. riskLevel y \<in> set (allowedRiskLevels Moderate)) [pendle_opp, yearn_opp, aave_opp]
     = [yearn_opp, aave_opp]"
  by (simp add: sample_risks allowedRiskLevels_def)

lemma sample_fetch_filled:
  "fetchAllYields new_YieldService sample_network 0 0 =
     (Inr [pendle_opp, yearn_opp, aave_opp], filled_service, sample_fetches)"
  by (simp add: sample_fetch filled_service_eq)

lemma sample_descending: "apy_descending [pendle_opp, yearn_opp, aave_opp]"
  by (simp add: apy_descending_def sample_apys)

lemma adapters_depend_on_sources:
  assumes "sources svc = sources svc2"
  shows "fetchDefiLlamaYields svc net = fetchDefiLlamaYields svc2 net"
    and "fetchYearnYields svc net = fetchYearnYields svc2 net"
  using assms by (simp_all add: fetchDefiLlamaYields_def fetchYearnYields_def)

lemma filled_cache:
  "cache filled_service cacheKey =
     Some \<lparr>data = [pendle_opp, yearn_opp, aave_opp], timestamp = 0\<rparr>"
  by (simp add: filled_service_eq)

lemma sample_reread:
  "fetchAllYields filled_service sample_network 240000 240000 =
     (Inr [pendle_opp, yearn_opp, aave_opp], filled_service, [])"
  using fetchAllYields_hit [OF filled_cache, of 240000 sample_network 240000]
  by (simp add: CACHE_TTL_def)

lemma reread_service_eq: "reread_service = filled_service"
  by (simp add: reread_service_def sample_reread)

lemma sample_refetch:
  "snd (snd (fetchAllYields filled_service sample_network 360000 360000)) = sample_fetches"
proof -
  have src: "sources filled_service = sources new_YieldService"
    by (simp add: filled_service_eq)
  have miss: "cache filled_service cacheKey = None
      \<or> (\<exists>e. cache filled_service cacheKey = Some e \<and> \<not> 360000 - timestamp e < CACHE_TTL)"
    by (simp add: filled_cache CACHE_TTL_def)
  show ?thesis
    by (simp add: fetchAllYields_miss [OF miss] adapters_depend_on_sources [OF src]
        sample_llama sample_yearn sample_fetches_def)
qed





lemma sample_names:
  "trim (toLowerCase ''Bob.ETH '') = ''bob.eth''"
  "trim (toLowerCase ''bob.eth'') = ''bob.eth''"
  "trim (toLowerCase ''alice.eth'') = ''alice.eth''"
  by (simp_all add: trim_def is_space_def string_eval)

lemma sample_bob:
  "resolveName sample_client ''bob.eth'' = Some ''0xB0B0000000000000000000000000000000000000''"
  "getTextRecord sample_client ''bob.eth'' ''com.yieldintent.strategyFollow'' = Some ''alice.eth''"
  "getEnsAvatar sample_client ''bob.eth'' = Inr None"
  "getAllTextRecords sample_client ''bob.eth'' K_riskTolerance = Some ''aggressive''"
  by (simp_all add: resolveName_def getTextRecord_def getAllTextRecords_def sample_names
      sample_client_def)

lemma sample_alice:
  "getAllTextRecords sample_client ''alice.eth'' K_riskTolerance = Some ''conservative''"
  "getAllTextRecords sample_client ''alice.eth'' K_strategyFollow = Some ''carol.eth''"
  by (simp_all add: getTextRecord_def getAllTextRecords_def sample_names sample_client_def)

lemma sample_alice_prefs:
  "riskTolerance (parsePreferences (getAllTextRecords sample_client ''alice.eth'')) = Conservative"
  "strategyFollow (parsePreferences (getAllTextRecords sample_client ''alice.eth''))
     = Some ''carol.eth''"
  by (simp_all add: parsed_fields parse_risk_def truthy_def sample_alice)

lemma sample_bob_prefs:
  "riskTolerance (parsePreferences (getAllTextRecords sample_client ''bob.eth'')) = Aggressive"
  by (simp add: parsed_fields parse_risk_def truthy_def sample_bob)

lemma sample_best_route:
  "getBestRoute sample_sdk sample_request = (Inr (Some sample_route), [SdkGetRoutes 1 8453])"
  by (simp add: getBestRoute_def sample_request_def token_address_def TOKEN_ADDRESSES_def
      upper_usdc sample_sdk_def)

lemma sample_best_yield:
  "getBestYield new_YieldService sample_network 0 0 8453 ''usdc'' (Some Moderate) (Some 100000)
     = (Inr (Some yearn_opp), filled_service, sample_fetches)"
  by (simp add: getBestYield_def queryYields_eq [OF sample_fetch_filled] filter_yields_def
      filter_chainId_def filter_token_def filter_minApy_def filter_maxApy_def
      filter_minTvl_def filter_risk_def filter_whitelist_def filter_blacklist_def
      apply_limit_def sample_risks sample_chain_token_tvl upper_usdc allowedRiskLevels_def)

lemma sample_execution:
  "executeComposedIntent sample_sdk 1700000000000 ''k3x9'' sample_intent sample_route () =
     (Inr \<lparr> ex_id = ''k3x9'', ex_intent = sample_intent, ex_route = sample_route,
            ex_steps = [], ex_status = ExCompleted, ex_error = None,
            createdAt = 1700000000000, updatedAt = 1700000000000 \<rparr>,
      [SdkExecuteRoute ''route-1''])"
  by (simp add: executeComposedIntent_def executeRoute_def sample_sdk_def sample_route_def)

lemma failing_execution:
  "executeComposedIntent failing_sdk 1700000000000 ''k3x9'' sample_intent sample_route () =
     (Inl (JsError ''User rejected the request''), [SdkExecuteRoute ''route-1''])"
  by (simp add: executeComposedIntent_def executeRoute_def failing_sdk_def sample_sdk_def
      sample_route_def Let_def)

text \<open>The answer with a pool that carries no \<open>apy\<close>.\<close>

lemma gap_llama_opportunities:
  "List.map_filter (llama_opportunity llama_source) gap_pools
     = [aave_low, compound_gap, morpho_high]"
  by (simp add: List.map_filter_simps gap_pools_def llama_opportunity_def llama_source_def
      PROTOCOL_METADATA_def CHAIN_ID_TO_NAME_def aave_low_def compound_gap_def
      morpho_high_def Let_def or_string_def or_number_def template_def string_eval)

lemma gap_llama_attempt:
  "llama_attempt gap_network llama_source n =
     (Inr [aave_low, compound_gap, morpho_high], [Fetch ''https://yields.llama.fi/pools''])"
  unfolding llama_attempt_def llama_url Let_def
  by (simp add: gap_network_def gap_llama_opportunities)

lemma gap_llama:
  "fetchDefiLlamaYields new_YieldService gap_network =
     (Inr [aave_low, compound_gap, morpho_high], [Fetch ''https://yields.llama.fi/pools''])"
  by (simp add: fetchDefiLlamaYields_def find_llama withRetry_def
      withRetry_loop.simps [of _ 2 1000 2 NonError 0] gap_llama_attempt)

lemma gap_yearn_chain:
  "yearn_chain gap_network yearn_source cid =
     ([], [Fetch (''https://api.yearn.fi/v1/chains/'' @ string_of_nat (nat cid) @ ''/vaults/all'')])"
  by (simp add: yearn_chain_def base_url_def template_def yearn_source_def gap_network_def)

lemma gap_yearn:
  "fetchYearnYields new_YieldService gap_network =
     ([],
      [Fetch ''https://api.yearn.fi/v1/chains/1/vaults/all'',
       Fetch ''https://api.yearn.fi/v1/chains/10/vaults/all'',
       Fetch ''https://api.yearn.fi/v1/chains/137/vaults/all'',
       Fetch ''https://api.yearn.fi/v1/chains/42161/vaults/all'',
       Fetch ''https://api.yearn.fi/v1/chains/8453/vaults/all''])"
proof -
  have "src_chains yearn_source = [1, 10, 137, 42161, 8453]"
    by (simp add: yearn_source_def)
  then show ?thesis
    by (simp add: fetchYearnYields_def find_yearn gap_yearn_chain chain_strings)
qed

lemma gap_apys:
  "apy aave_low = Num (1 / 100)" "apy compound_gap = NaN" "apy morpho_high = Num (5 / 100)"
  by (simp_all add: aave_low_def compound_gap_def morpho_high_def)

lemma gap_sort:
  "array_sort by_apy_desc [aave_low, compound_gap, morpho_high]
     = [aave_low, compound_gap, morpho_high]"
  by (simp add: array_sort_def by_apy_desc_def gap_apys)

lemma gap_fetch:
  "fetchAllYields new_YieldService gap_network 0 0 =
     (Inr [aave_low, compound_gap, morpho_high], gap_service, sample_fetches)"
proof -
  have "cache new_YieldService cacheKey = None"
    by (simp add: cache_new)
  then show ?thesis
    by (simp add: fetchAllYields_miss gap_llama gap_yearn gap_sort sample_fetches_def
        cache_new gap_service_def)
qed

lemma gap_fields:
  "chainId aave_low = 8453" "token aave_low = ''USDC''" "tvlUsd aave_low = 250000000"
  "riskLevel aave_low = Low"
  by (simp_all add: aave_low_def)

lemma gap_no_filter:
  "filter_yields no_filter ys = ys"
  by (simp add: filter_yields_def no_filter_def filter_chainId_def filter_token_def
      filter_minApy_def filter_maxApy_def filter_minTvl_def filter_risk_def
      filter_whitelist_def filter_blacklist_def apply_limit_def)

text \<open>The Yearn adapter turns a missing APY into 0.\<close>

lemma guarded_yearn_opportunity:
  "yearn_opportunity 8453 (sample_vault\<lparr>yv_net_apy := None\<rparr>) = Some (yearn_opp\<lparr>apy := Num 0\<rparr>)"
  by (simp add: yearn_opportunity_def sample_vault_def yearn_opp_def chain_strings
      CHAIN_ID_TO_NAME_def or_string_def or_number_def)

lemma gap_best_yield:
  "getBestYield new_YieldService gap_network 0 0 8453 ''USDC'' (Some Conservative) (Some 100000)
     = (Inr (Some aave_low), gap_service, sample_fetches)"
  by (simp add: getBestYield_def queryYields_eq [OF gap_fetch] filter_yields_def
      filter_chainId_def filter_token_def filter_minApy_def filter_maxApy_def
      filter_minTvl_def filter_risk_def filter_whitelist_def filter_blacklist_def
      apply_limit_def gap_fields upper_usdc allowedRiskLevels_def)

text \<open>
  The two answers side by side: the sample answer has numeric APYs and is sorted, as is
  every selection from it; the answer with the gap is sorted in no order of its entries.
\<close>

lemma sample_numeric_sorted:
  "numeric_apys [pendle_opp, yearn_opp, aave_opp]
   \<and> apy_descending [pendle_opp, yearn_opp, aave_opp]
   \<and> apy_descending (filter_yields sample_params [pendle_opp, yearn_opp, aave_opp])"
proof -
  have numeric: "numeric_apys [pendle_opp, yearn_opp, aave_opp]"
    by (simp add: numeric_apys_def sample_apys)
  from numeric_superset_is_sorted [OF reachable.constructed sample_fetch_filled numeric,
      of sample_params] numeric
  show ?thesis
    by simp
qed

lemma gap_unsorted_in_any_order:
  "\<not> apy_descending [morpho_high, aave_low, compound_gap]"
  "\<not> apy_descending [compound_gap, morpho_high, aave_low]"
  "\<not> apy_descending [morpho_high, compound_gap, aave_low]"
  by (rule not_descending_with_NaN [of compound_gap], simp, simp add: gap_apys, simp)+



section \<open>Claims\<close>

lemma upper_FOO: "toUpperCase ''FOO'' = ''FOO''"
  by (simp add: toUpperCase_def toUpperCase_char_def)

lemma token_address_FOO: "token_address 1 ''FOO'' = None"
  by (simp add: token_address_def TOKEN_ADDRESSES_def upper_FOO)

text \<open>
  Claim C1. When the state that \<open>executeIntent\<close> reads has no route or no composed
  intent, the call fails at once: the only state it sets is the current one with step
  \<open>failed\<close> and the error message \<open>No intent to execute\<close>; the step \<open>executing\<close>
  is never taken, and no call reaches the routing provider.
\<close>

theorem executeIntent_without_intent:
  assumes "route snapshot = None \<or> composedIntent snapshot = None"
  shows "executeIntent sdk now rnd snapshot prev walletClient =
           ([prev\<lparr>step := Failed, error := Some ''No intent to execute''\<rparr>], [])
         \<and> Executing \<notin> set (map step (fst (executeIntent sdk now rnd snapshot prev walletClient)))
         \<and> snd (executeIntent sdk now rnd snapshot prev walletClient) = []"
  using assms by (auto simp: executeIntent_def split: option.splits)

theorem executeIntent_without_intent_witness:
  "route initialState = None
   \<and> executeIntent sample_sdk 0 ''k3x9'' initialState initialState () =
       ([\<lparr> step = Failed, route = None, targetYield = None, composedIntent = None,
            execution = None, error = Some ''No intent to execute'' \<rparr>], [])"
  using executeIntent_without_intent [of initialState sample_sdk 0 "''k3x9''" initialState "()"]
  by (simp add: initialState_def)

text \<open>
  Claim C8. When the source token has no address on the source chain, or the
  destination token none on the destination chain (looked up as the quoter does, by the
  upper-cased symbol in the table of the chain), \<open>getBestRoute\<close> throws the
  \<open>Token not supported\<close> error and has made no call to the routing service.
\<close>

theorem getBestRoute_unmapped_token:
  assumes "token_address (fromChain request) (fromToken request) = None
           \<or> token_address (toChain request) (toToken request) = None"
  shows "getBestRoute sdk request =
           (Inl (JsError (''Token not supported on one of the chains: ''
                           @ fromToken request @ '' -> '' @ toToken request)), [])"
  using assms by (auto simp: getBestRoute_def split: option.splits)

theorem getBestRoute_unmapped_token_witness:
  "token_address (fromChain foo_request) (fromToken foo_request) = None
   \<and> getBestRoute sample_sdk foo_request =
       (Inl (JsError ''Token not supported on one of the chains: FOO -> usdc''), [])"
  using getBestRoute_unmapped_token [of foo_request sample_sdk]
  by (simp add: foo_request_def sample_request_def token_address_FOO)

text \<open>
  Claim C5 fails on the code where it says that the result is sorted by APY. The
  DefiLlama adapter computes \<open>pool.apy / 100\<close> without a guard. For an answer of three
  supported pools with an \<open>apy\<close> of 1, none and 5, in this order, the APYs are 0.01,
  \<open>NaN\<close> and 0.05; the comparator yields \<open>NaN\<close> against the second, the sort leaves
  the order as it is, and this list is cached and returned: the superset and the unfiltered
  query result have an APY of 0.01 before one of 0.05, and the best yield for USDC on
  Base is the pool with 1 percent.
\<close>

theorem missing_apy_leaves_superset_unsorted:
  "map lp_apy gap_pools = [FieldNumber 1, FieldUndefined, FieldNumber 5]
   \<and> fetchAllYields new_YieldService gap_network 0 0 =
       (Inr [aave_low, compound_gap, morpho_high], gap_service, sample_fetches)
   \<and> queryYields new_YieldService gap_network 0 0 no_filter =
       (Inr [aave_low, compound_gap, morpho_high], gap_service, sample_fetches)
   \<and> map apy [aave_low, compound_gap, morpho_high] = [Num (1 / 100), NaN, Num (5 / 100)]
   \<and> \<not> apy_descending [aave_low, compound_gap, morpho_high]
   \<and> \<not> num_ge (apy aave_low) (apy morpho_high)
   \<and> getBestYield new_YieldService gap_network 0 0 8453 ''USDC'' (Some Conservative)
         (Some 100000) = (Inr (Some aave_low), gap_service, sample_fetches)"
proof -
  have input: "map lp_apy gap_pools = [FieldNumber 1, FieldUndefined, FieldNumber 5]"
    by (simp add: gap_pools_def)
  have query: "queryYields new_YieldService gap_network 0 0 no_filter =
       (Inr [aave_low, compound_gap, morpho_high], gap_service, sample_fetches)"
    by (simp add: queryYields_eq [OF gap_fetch] gap_no_filter)
  have unsorted: "\<not> apy_descending [aave_low, compound_gap, morpho_high]"
    by (simp add: apy_descending_def gap_apys)
  have lower: "\<not> num_ge (apy aave_low) (apy morpho_high)"
    by (simp add: gap_apys)
  from input gap_fetch query unsorted lower gap_best_yield show ?thesis
    by (simp add: gap_apys)
qed

text \<open>
  Claim C2. In every state of the aggregator, no opportunity that \<open>queryYields\<close>
  returns has a protocol slug that is in the blacklist of the query, as written or in
  lower case, whatever the whitelist of the query holds: the blacklist filter runs on
  what the whitelist filter has let through.
\<close>

theorem blacklist_takes_precedence:
  assumes "reachable svc"
    and "queryYields svc net now_check now_store params = (Inr ys, svc', fx)"
    and "q_blacklistedProtocols params = Some bl"
    and "y \<in> set ys"
  shows "protocolSlug y \<notin> set bl \<and> protocolSlug y \<notin> set (map toLowerCase bl)"
proof -
  from queryYields_InrD [OF assms(2)] obtain superset where
    fetched: "fetchAllYields svc net now_check now_store = (Inr superset, svc', fx)"
    and ys: "ys = filter_yields params superset"
    by blast
  from assms(4) ys have lower: "protocolSlug y \<notin> set (map toLowerCase bl)"
    using in_filter_yields_blacklist [OF _ assms(3)] by blast
  have "lowercase_slugs superset"
    using superset_ok [OF reachable_cache_ok [OF assms(1)] fetched] by simp
  moreover from assms(4) ys have "y \<in> set superset"
    using subseq_set [OF subseq_filter_yields] by blast
  ultimately have own: "toLowerCase (protocolSlug y) = protocolSlug y"
    by (simp add: lowercase_slugs_def list_all_iff)
  have "protocolSlug y \<notin> set bl"
  proof
    assume "protocolSlug y \<in> set bl"
    then have "toLowerCase (protocolSlug y) \<in> set (map toLowerCase bl)"
      by simp
    with own lower show False
      by simp
  qed
  with lower show ?thesis
    by simp
qed

theorem blacklist_takes_precedence_witness:
  "reachable new_YieldService
   \<and> queryYields new_YieldService sample_network 0 0 conflicting_params =
       (Inr [aave_opp], filled_service, sample_fetches)
   \<and> q_whitelistedProtocols conflicting_params = Some [''aave-v3'', ''pendle'']
   \<and> q_blacklistedProtocols conflicting_params = Some [''Pendle'']
   \<and> protocolSlug aave_opp \<notin> set [''Pendle'']
   \<and> protocolSlug aave_opp \<notin> set (map toLowerCase [''Pendle''])"
proof -
  have q: "queryYields new_YieldService sample_network 0 0 conflicting_params =
             (Inr [aave_opp], filled_service, sample_fetches)"
    by (simp add: queryYields_eq [OF sample_fetch_filled] sample_conflicting)
  have bl: "q_blacklistedProtocols conflicting_params = Some [''Pendle'']"
    by (simp add: conflicting_params_def)
  from blacklist_takes_precedence [OF reachable.constructed q bl, of aave_opp] q bl
  show ?thesis
    by (simp add: reachable.constructed conflicting_params_def)
qed

text \<open>
  Claim C7. The risk levels allowed for a tolerance are \<open>{low}\<close>, \<open>{low, medium}\<close>
  and \<open>{low, medium, high}\<close>, each strictly inside the next. With a risk tolerance
  in the query, \<open>queryYields\<close> answers what the same query without it answers on the
  superset restricted to exactly the opportunities of an allowed risk level; with the
  risk tolerance alone it returns exactly those opportunities.
\<close>

theorem risk_levels_by_tolerance:
  "set (allowedRiskLevels Conservative) = {Low}
   \<and> set (allowedRiskLevels Moderate) = {Low, Medium}
   \<and> set (allowedRiskLevels Aggressive) = {Low, Medium, High}
   \<and> set (allowedRiskLevels Conservative) \<subset> set (allowedRiskLevels Moderate)
   \<and> set (allowedRiskLevels Moderate) \<subset> set (allowedRiskLevels Aggressive)
   \<and> (q_riskTolerance params = Some r
        \<and> fetchAllYields svc net now_check now_store = (Inr superset, svc', fx) \<longrightarrow>
        queryYields svc net now_check now_store params =
          (Inr (filter_yields (params\<lparr>q_riskTolerance := None\<rparr>)
                  (filter (\<lambda>y. riskLevel y \<in> set (allowedRiskLevels r)) superset)),
           svc', fx))
   \<and> (fetchAllYields svc net now_check now_store = (Inr superset, svc', fx) \<longrightarrow>
        queryYields svc net now_check now_store (only_risk r) =
          (Inr (filter (\<lambda>y. riskLevel y \<in> set (allowedRiskLevels r)) superset), svc', fx))"
proof -
  have levels:
    "set (allowedRiskLevels Conservative) = {Low}"
    "set (allowedRiskLevels Moderate) = {Low, Medium}"
    "set (allowedRiskLevels Aggressive) = {Low, Medium, High}"
    by (simp_all add: allowedRiskLevels_def)
  have chain:
    "set (allowedRiskLevels Conservative) \<subset> set (allowedRiskLevels Moderate)"
    "set (allowedRiskLevels Moderate) \<subset> set (allowedRiskLevels Aggressive)"
    unfolding levels by auto
  from levels chain show ?thesis
    by (simp add: queryYields_eq filter_yields_risk filter_yields_only_risk)
qed

theorem risk_levels_by_tolerance_witness:
  "fetchAllYields new_YieldService sample_network 0 0 =
     (Inr [pendle_opp, yearn_opp, aave_opp], filled_service, sample_fetches)
   \<and> queryYields new_YieldService sample_network 0 0 (only_risk Moderate) =
       (Inr [yearn_opp, aave_opp], filled_service, sample_fetches)
   \<and> riskLevel pendle_opp = High"
  using risk_levels_by_tolerance
          [where r = Moderate and svc = new_YieldService and net = sample_network
             and now_check = 0 and now_store = 0
             and superset = "[pendle_opp, yearn_opp, aave_opp]"
             and svc' = filled_service and fx = sample_fetches]
  by (simp add: sample_fetch_filled sample_moderate sample_risks)

text \<open>
  Claim C6, as the code has it. The age of the cache entry is what counts, not the time
  since the previous call: a call made less than five minutes after the time stamp of the
  entry under \<open>all-yields\<close> returns the cached list, leaves the service as it is and
  issues no request. So a call that follows within five minutes a call that missed the
  cache and stored its result is answered from the cache. Requests are issued only when
  there is no entry or the entry is at least five minutes old; only \<open>clearCache\<close> removes
  the entry, and no other key is ever used.
\<close>

theorem cache_hit_within_ttl_of_entry:
  "(cache svc cacheKey = Some e \<and> now_check - timestamp e < CACHE_TTL \<longrightarrow>
      fetchAllYields svc net now_check now_store = (Inr (data e), svc, []))
   \<and> ((cache svc cacheKey = None
         \<or> (\<exists>old. cache svc cacheKey = Some old \<and> CACHE_TTL \<le> t1 - timestamp old))
        \<and> fetchAllYields svc net t1 t1' = (Inr ys, svc1, fx1)
        \<and> t2 - t1' < CACHE_TTL \<longrightarrow>
        fetchAllYields svc1 net2 t2 t2' = (Inr ys, svc1, []))
   \<and> (snd (snd (fetchAllYields svc net now_check now_store)) \<noteq> [] \<longrightarrow>
        cache svc cacheKey = None
        \<or> (\<exists>old. cache svc cacheKey = Some old \<and> CACHE_TTL \<le> now_check - timestamp old))
   \<and> cacheKey = ''all-yields''
   \<and> CACHE_TTL = 300000
   \<and> (reachable svc \<longrightarrow> dom (cache svc) \<subseteq> {''all-yields''})
   \<and> cache (clearCache svc) ''all-yields'' = None
   \<and> (cache svc cacheKey \<noteq> None \<longrightarrow>
        cache (fst (snd (fetchAllYields svc net now_check now_store))) cacheKey \<noteq> None)"
proof -
  have hit: "cache svc cacheKey = Some e \<and> now_check - timestamp e < CACHE_TTL \<longrightarrow>
      fetchAllYields svc net now_check now_store = (Inr (data e), svc, [])"
    by (simp add: fetchAllYields_hit)
  have second: "(cache svc cacheKey = None
         \<or> (\<exists>old. cache svc cacheKey = Some old \<and> CACHE_TTL \<le> t1 - timestamp old))
        \<and> fetchAllYields svc net t1 t1' = (Inr ys, svc1, fx1)
        \<and> t2 - t1' < CACHE_TTL \<longrightarrow>
        fetchAllYields svc1 net2 t2 t2' = (Inr ys, svc1, [])"
  proof (intro impI, elim conjE)
    assume miss: "cache svc cacheKey = None
         \<or> (\<exists>old. cache svc cacheKey = Some old \<and> CACHE_TTL \<le> t1 - timestamp old)"
      and first: "fetchAllYields svc net t1 t1' = (Inr ys, svc1, fx1)"
      and near: "t2 - t1' < CACHE_TTL"
    from miss have miss': "cache svc cacheKey = None
         \<or> (\<exists>old. cache svc cacheKey = Some old \<and> \<not> t1 - timestamp old < CACHE_TTL)"
      by auto
    from first fetchAllYields_miss [OF miss', of net t1']
    have "cache svc1 cacheKey = Some \<lparr>data = ys, timestamp = t1'\<rparr>"
      by (cases "fst (fetchDefiLlamaYields svc net)") auto
    from fetchAllYields_hit [OF this, of t2 net2 t2'] near
    show "fetchAllYields svc1 net2 t2 t2' = (Inr ys, svc1, [])"
      by simp
  qed
  have only: "snd (snd (fetchAllYields svc net now_check now_store)) \<noteq> [] \<longrightarrow>
        cache svc cacheKey = None
        \<or> (\<exists>old. cache svc cacheKey = Some old \<and> CACHE_TTL \<le> now_check - timestamp old)"
    by (cases rule: fetchAllYields_cases
          [where svc = svc and net = net and now_check = now_check and now_store = now_store])
       auto
  have keeps: "cache svc cacheKey \<noteq> None \<longrightarrow>
        cache (fst (snd (fetchAllYields svc net now_check now_store))) cacheKey \<noteq> None"
    by (cases rule: fetchAllYields_cases
          [where svc = svc and net = net and now_check = now_check and now_store = now_store])
       auto
  have key: "cacheKey = ''all-yields''" and ttl: "CACHE_TTL = 300000"
    by (simp_all add: cacheKey_def CACHE_TTL_def)
  have dom: "reachable svc \<longrightarrow> dom (cache svc) \<subseteq> {''all-yields''}"
    using reachable_cache_ok [of svc] by (simp add: cache_ok_def cacheKey_def)
  have clear: "cache (clearCache svc) ''all-yields'' = None"
    by (simp add: clearCache_def)
  from hit second only key ttl dom clear keeps show ?thesis
    by blast
qed

theorem cache_hit_within_ttl_of_entry_witness:
  "cache filled_service cacheKey =
     Some \<lparr>data = [pendle_opp, yearn_opp, aave_opp], timestamp = 0\<rparr>
   \<and> (240000 :: int) - 0 < CACHE_TTL
   \<and> fetchAllYields filled_service sample_network 240000 240000 =
       (Inr [pendle_opp, yearn_opp, aave_opp], filled_service, [])"
  using cache_hit_within_ttl_of_entry
          [where svc = filled_service and now_check = 240000 and now_store = 240000
             and net = sample_network
             and e = "\<lparr>data = [pendle_opp, yearn_opp, aave_opp], timestamp = 0\<rparr>"]
  by (simp add: filled_cache CACHE_TTL_def)

text \<open>
  The claim as it is written fails. The cache is filled at time 0. A call four minutes
  later is answered from the cache; a call six minutes after the filling, two minutes
  after the previous call and with no \<open>clearCache\<close> in between, issues all six
  requests again.
\<close>

theorem calls_two_minutes_apart_refetch:
  "fetchAllYields new_YieldService sample_network 0 0 =
     (Inr [pendle_opp, yearn_opp, aave_opp], filled_service, sample_fetches)
   \<and> fetchAllYields filled_service sample_network 240000 240000 =
       (Inr [pendle_opp, yearn_opp, aave_opp], reread_service, [])
   \<and> (360000 :: int) - 240000 < CACHE_TTL
   \<and> snd (snd (fetchAllYields reread_service sample_network 360000 360000)) = sample_fetches
   \<and> length sample_fetches = 6"
  by (simp add: sample_fetch_filled sample_reread reread_service_eq sample_refetch
      CACHE_TTL_def sample_fetches_def)




text \<open>
  Claim C4. For a handle that resolves to an address and whose \<open>strategyFollow\<close>
  record names a delegate, \<open>getProfile\<close> returns a profile whose preferences are the
  parsed records of the delegate, with \<open>isFollowingStrategy\<close> true and
  \<open>followedStrategyOwner\<close> the delegate. The delegate's own \<open>strategyFollow\<close> record
  is copied into the preferences and not followed: the profile is the same for every
  naming client that agrees on the handle and on the records of the delegate.
\<close>

theorem getProfile_follows_delegate_once:
  assumes "resolveName client (trim (toLowerCase nm)) = Some addr" and "addr \<noteq> []"
    and "getTextRecord client (trim (toLowerCase nm)) (ENS_RECORD_KEYS K_strategyFollow)
           = Some delegate"
    and "delegate \<noteq> []"
    and "getEnsAvatar client (trim (toLowerCase nm)) = Inr av"
  shows "getProfile client nm =
           Inr (Some \<lparr> name = trim (toLowerCase nm),
                       address = addr,
                       avatar = (case av of None \<Rightarrow> None
                                 | Some a \<Rightarrow> if a = [] then None else Some a),
                       preferences = parsePreferences (getAllTextRecords client delegate),
                       isFollowingStrategy = True,
                       followedStrategyOwner = Some delegate \<rparr>)
         \<and> strategyFollow (parsePreferences (getAllTextRecords client delegate))
             = truthy (getAllTextRecords client delegate) K_strategyFollow
         \<and> (resolveName other (trim (toLowerCase nm)) = resolveName client (trim (toLowerCase nm))
              \<and> getEnsAvatar other (trim (toLowerCase nm))
                  = getEnsAvatar client (trim (toLowerCase nm))
              \<and> getAllTextRecords other (trim (toLowerCase nm))
                  = getAllTextRecords client (trim (toLowerCase nm))
              \<and> getAllTextRecords other delegate = getAllTextRecords client delegate
              \<longrightarrow> getProfile other nm = getProfile client nm)"
proof -
  have followed:
    "truthy (getAllTextRecords client (trim (toLowerCase nm))) K_strategyFollow = Some delegate"
    using assms(3,4) by (simp add: truthy_def getAllTextRecords_def)
  with assms(1,2,5) have profile: "getProfile client nm =
           Inr (Some \<lparr> name = trim (toLowerCase nm),
                       address = addr,
                       avatar = (case av of None \<Rightarrow> None
                                 | Some a \<Rightarrow> if a = [] then None else Some a),
                       preferences = parsePreferences (getAllTextRecords client delegate),
                       isFollowingStrategy = True,
                       followedStrategyOwner = Some delegate \<rparr>)"
    by (simp add: getProfile_def Let_def)
  have frame: "resolveName other (trim (toLowerCase nm)) = resolveName client (trim (toLowerCase nm))
              \<and> getEnsAvatar other (trim (toLowerCase nm))
                  = getEnsAvatar client (trim (toLowerCase nm))
              \<and> getAllTextRecords other (trim (toLowerCase nm))
                  = getAllTextRecords client (trim (toLowerCase nm))
              \<and> getAllTextRecords other delegate = getAllTextRecords client delegate
              \<longrightarrow> getProfile other nm = getProfile client nm"
  proof (intro impI, elim conjE)
    assume same: "resolveName other (trim (toLowerCase nm)) = resolveName client (trim (toLowerCase nm))"
      "getEnsAvatar other (trim (toLowerCase nm)) = getEnsAvatar client (trim (toLowerCase nm))"
      "getAllTextRecords other (trim (toLowerCase nm))
         = getAllTextRecords client (trim (toLowerCase nm))"
      "getAllTextRecords other delegate = getAllTextRecords client delegate"
    from followed same(3) have
      "truthy (getAllTextRecords other (trim (toLowerCase nm))) K_strategyFollow = Some delegate"
      by simp
    with assms(1,2,5) same(1,2,4) have "getProfile other nm =
           Inr (Some \<lparr> name = trim (toLowerCase nm),
                       address = addr,
                       avatar = (case av of None \<Rightarrow> None
                                 | Some a \<Rightarrow> if a = [] then None else Some a),
                       preferences = parsePreferences (getAllTextRecords client delegate),
                       isFollowingStrategy = True,
                       followedStrategyOwner = Some delegate \<rparr>)"
      by (simp add: getProfile_def Let_def)
    with profile show "getProfile other nm = getProfile client nm"
      by simp
  qed
  from profile frame show ?thesis
    by (simp add: parsed_fields)
qed

theorem getProfile_follows_delegate_once_witness:
  "getProfile sample_client ''Bob.ETH '' =
     Inr (Some \<lparr> name = ''bob.eth'',
                 address = ''0xB0B0000000000000000000000000000000000000'',
                 avatar = None,
                 preferences = parsePreferences (getAllTextRecords sample_client ''alice.eth''),
                 isFollowingStrategy = True,
                 followedStrategyOwner = Some ''alice.eth'' \<rparr>)
   \<and> riskTolerance (parsePreferences (getAllTextRecords sample_client ''alice.eth''))
       = Conservative
   \<and> strategyFollow (parsePreferences (getAllTextRecords sample_client ''alice.eth''))
       = Some ''carol.eth''
   \<and> riskTolerance (parsePreferences (getAllTextRecords sample_client ''bob.eth''))
       = Aggressive"
proof -
  have resolved: "resolveName sample_client (trim (toLowerCase ''Bob.ETH ''))
      = Some ''0xB0B0000000000000000000000000000000000000''"
    by (simp add: sample_names sample_bob)
  have follows: "getTextRecord sample_client (trim (toLowerCase ''Bob.ETH ''))
      (ENS_RECORD_KEYS K_strategyFollow) = Some ''alice.eth''"
    by (simp add: sample_names sample_bob)
  have no_avatar: "getEnsAvatar sample_client (trim (toLowerCase ''Bob.ETH '')) = Inr None"
    by (simp add: sample_names sample_bob)
  from getProfile_follows_delegate_once [OF resolved _ follows _ no_avatar]
  show ?thesis
    by (simp add: sample_names sample_alice_prefs sample_bob_prefs)
qed

text \<open>
  Claim C9. When the route is found and the best yield opportunity has a protocol slug
  that is in the caller's blacklist, \<open>buildIntent\<close> stops before composing: the steps
  taken are \<open>fetching-route\<close>, \<open>finding-yield\<close>, \<open>failed\<close>; the recorded error
  names the protocol of the opportunity; the target yield and the composed intent of the
  state stay as they were.
\<close>

theorem buildIntent_blacklisted_protocol:
  assumes "getBestRoute sdk request = (Inr (Some r), route_fx)"
    and "getBestYield svc net now_check now_store (toChain request) (toToken request)
           (Some (riskTolerance prefs)) (Some (minLiquidityUsd prefs))
           = (Inr (Some ty), svc', yield_fx)"
    and "JString (protocolSlug ty) \<in> set (blacklistedProtocols prefs)"
  shows "map step (br_states (buildIntent sdk net svc now_check now_store request prefs prev))
           = [FetchingRoute, FindingYield, Failed]
         \<and> error (last (br_states
               (buildIntent sdk net svc now_check now_store request prefs prev)))
             = Some (''The best yield opportunity is from '' @ protocol ty
                       @ '', which is in your blacklist'')
         \<and> composedIntent (last (br_states
               (buildIntent sdk net svc now_check now_store request prefs prev)))
             = composedIntent prev
         \<and> targetYield (last (br_states
               (buildIntent sdk net svc now_check now_store request prefs prev)))
             = targetYield prev"
  using assms by (simp add: buildIntent_def Let_def build_failed_def)

theorem buildIntent_blacklisted_protocol_witness:
  "getBestRoute sample_sdk sample_request = (Inr (Some sample_route), [SdkGetRoutes 1 8453])
   \<and> getBestYield new_YieldService sample_network 0 0 8453 ''usdc'' (Some Moderate)
         (Some 100000) = (Inr (Some yearn_opp), filled_service, sample_fetches)
   \<and> blacklistedProtocols blacklisting_prefs = [JString ''yearn-v3'']
   \<and> map step (br_states (buildIntent sample_sdk sample_network new_YieldService 0 0
                  sample_request blacklisting_prefs initialState))
       = [FetchingRoute, FindingYield, Failed]
   \<and> error (last (br_states (buildIntent sample_sdk sample_network new_YieldService 0 0
                  sample_request blacklisting_prefs initialState)))
       = Some ''The best yield opportunity is from Yearn V3, which is in your blacklist''"
proof -
  have prefs: "riskTolerance blacklisting_prefs = Moderate"
    "minLiquidityUsd blacklisting_prefs = 100000"
    "blacklistedProtocols blacklisting_prefs = [JString ''yearn-v3'']"
    by (simp_all add: blacklisting_prefs_def DEFAULT_PREFERENCES_def)
  have req: "toChain sample_request = 8453" "toToken sample_request = ''usdc''"
    by (simp_all add: sample_request_def)
  have nm: "protocol yearn_opp = ''Yearn V3''"
    by (simp add: yearn_opp_def)
  from buildIntent_blacklisted_protocol
         [where sdk = sample_sdk and request = sample_request and r = sample_route
            and route_fx = "[SdkGetRoutes 1 8453]" and svc = new_YieldService
            and net = sample_network and now_check = 0 and now_store = 0
            and prefs = blacklisting_prefs and ty = yearn_opp and svc' = filled_service
            and yield_fx = sample_fetches and prev = initialState]
  show ?thesis
    by (simp add: sample_best_route sample_best_yield prefs req nm sample_slugs)
qed

text \<open>
  Claim C10. Whenever \<open>executeComposedIntent\<close> returns, the execution record has
  status \<open>completed\<close> and no steps. So with a route and a composed intent present,
  \<open>executeIntent\<close> goes from \<open>executing\<close> to \<open>completed\<close> when the call returns,
  and to \<open>failed\<close> exactly when the call throws.
\<close>

theorem executeComposedIntent_returns_completed:
  "(executeComposedIntent sdk now rnd intent r walletClient = (Inr ex, fx) \<longrightarrow>
      ex_status ex = ExCompleted \<and> ex_steps ex = [])
   \<and> (route snapshot = Some r \<and> composedIntent snapshot = Some intent \<longrightarrow>
        map step (fst (executeIntent sdk now rnd snapshot prev walletClient)) =
          (case fst (executeComposedIntent sdk now rnd intent r walletClient) of
             Inr done \<Rightarrow> [Executing, Completed]
           | Inl e \<Rightarrow> [Executing, Failed]))"
proof -
  have returned: "executeComposedIntent sdk now rnd intent r walletClient = (Inr ex, fx) \<longrightarrow>
      ex_status ex = ExCompleted \<and> ex_steps ex = []"
    by (cases "sdk_executeRoute sdk r")
       (auto simp: executeComposedIntent_def executeRoute_def Let_def)
  have driven: "route snapshot = Some r \<and> composedIntent snapshot = Some intent \<longrightarrow>
        map step (fst (executeIntent sdk now rnd snapshot prev walletClient)) =
          (case fst (executeComposedIntent sdk now rnd intent r walletClient) of
             Inr done \<Rightarrow> [Executing, Completed]
           | Inl e \<Rightarrow> [Executing, Failed])"
    by (cases "sdk_executeRoute sdk r")
       (auto simp: executeIntent_def executeComposedIntent_def executeRoute_def Let_def)
  from returned driven show ?thesis
    by simp
qed

theorem executeComposedIntent_returns_completed_witness:
  "executeComposedIntent sample_sdk 1700000000000 ''k3x9'' sample_intent sample_route () =
     (Inr \<lparr> ex_id = ''k3x9'', ex_intent = sample_intent, ex_route = sample_route,
            ex_steps = [], ex_status = ExCompleted, ex_error = None,
            createdAt = 1700000000000, updatedAt = 1700000000000 \<rparr>,
      [SdkExecuteRoute ''route-1''])
   \<and> route ready_state = Some sample_route
   \<and> composedIntent ready_state = Some sample_intent
   \<and> map step (fst (executeIntent sample_sdk 1700000000000 ''k3x9'' ready_state ready_state ()))
       = [Executing, Completed]
   \<and> fst (executeComposedIntent failing_sdk 1700000000000 ''k3x9'' sample_intent sample_route ())
       = Inl (JsError ''User rejected the request'')
   \<and> map step (fst (executeIntent failing_sdk 1700000000000 ''k3x9'' ready_state ready_state ()))
       = [Executing, Failed]"
proof -
  have ready: "route ready_state = Some sample_route"
    "composedIntent ready_state = Some sample_intent"
    by (simp_all add: ready_state_def)
  from executeComposedIntent_returns_completed
         [where sdk = sample_sdk and now = 1700000000000 and rnd = "''k3x9''"
            and intent = sample_intent and r = sample_route and walletClient = "()"
            and snapshot = ready_state and prev = ready_state]
       executeComposedIntent_returns_completed
         [where sdk = failing_sdk and now = 1700000000000 and rnd = "''k3x9''"
            and intent = sample_intent and r = sample_route and walletClient = "()"
            and snapshot = ready_state and prev = ready_state]
  show ?thesis
    by (simp add: ready sample_execution failing_execution)
qed

end
